theory Spec2Isabelle
  imports Main "HOL-Library.Sublist"
begin

section \<open>JavaScript values and the built-ins the program calls\<close>

text \<open>
  The credential subsystem of clippy is \<^verbatim>\<open>src/lib/auth.ts\<close> together with
  \<^verbatim>\<open>validateSession\<close> of \<^verbatim>\<open>src/lib/owa-client.ts\<close>. The program reads JSON from
  disk and from the token's middle segment without checking its shape, so the values it handles
  are modelled as untyped JSON values. A property that is missing reads as \<open>undefined\<close>,
  which is \<open>None\<close> of \<open>jsval\<close>.

  Strings are lists of 8-bit characters: the texts the program handles (decimal time
  stamps, base64url tokens, JSON) are ASCII.

  Numbers are the mathematical integers: every number the program computes with (epoch
  milliseconds, the \<open>exp\<close> claim in seconds) lies in the range where IEEE doubles are exact.
  \<open>NaN\<close> is kept apart, since the program's comparisons depend on it.
\<close>

datatype json =
    JNull
  | JBool bool
  | JNum int
  | JStr string
  | JArr "json list"
  | JObj "(string \<times> json) list"

type_synonym jsval = "json option"

datatype jsnum = Num int | NaN

datatype js_error = SyntaxError | TypeError | ENOENT | EEXIST | EACCES

text \<open>
  \<open>JSON.parse\<close>, \<open>JSON.stringify\<close>, \<open>Buffer.from(s, 'base64url').toString()\<close> and the
  conversion of a string, array or object to a number belong to the runtime, not to the
  repository: they are parameters, and every theorem holds for all of them.
  \<open>JSON_parse\<close> answers \<open>None\<close> where \<open>JSON.parse\<close> throws.
\<close>

record runtime =
  JSON_parse :: "string \<Rightarrow> json option"
  JSON_stringify :: "json \<Rightarrow> string"
  base64url_decode :: "string \<Rightarrow> string"
  coerce_number :: "json \<Rightarrow> jsnum"

text \<open>
  Reading a property with the dot operator throws a \<open>TypeError\<close> on \<open>null\<close>; on a string,
  number, boolean or array the properties this program reads (\<open>exp\<close>, \<open>token\<close>,
  \<open>graphToken\<close>, \<open>expiresAt\<close>) do not exist. \<open>field\<close> is the same read where the
  value is known not to be \<open>null\<close>.
\<close>

fun get_prop :: "json \<Rightarrow> string \<Rightarrow> js_error + jsval" where
  "get_prop JNull k = Inl TypeError"
| "get_prop (JObj kvs) k = Inr (map_of kvs k)"
| "get_prop v k = Inr None"

fun field :: "json \<Rightarrow> string \<Rightarrow> jsval" where
  "field (JObj kvs) k = map_of kvs k"
| "field v k = None"

fun truthy :: "jsval \<Rightarrow> bool" where
  "truthy None = False"
| "truthy (Some JNull) = False"
| "truthy (Some (JBool b)) = b"
| "truthy (Some (JNum n)) = (n \<noteq> 0)"
| "truthy (Some (JStr s)) = (s \<noteq> [])"
| "truthy (Some (JArr xs)) = True"
| "truthy (Some (JObj kvs)) = True"

fun ToNumber :: "runtime \<Rightarrow> jsval \<Rightarrow> jsnum" where
  "ToNumber rt None = NaN"
| "ToNumber rt (Some JNull) = Num 0"
| "ToNumber rt (Some (JBool b)) = Num (if b then 1 else 0)"
| "ToNumber rt (Some (JNum n)) = Num n"
| "ToNumber rt (Some v) = coerce_number rt v"

fun js_times :: "jsnum \<Rightarrow> int \<Rightarrow> jsnum" where
  "js_times (Num a) b = Num (a * b)"
| "js_times NaN b = NaN"

fun js_minus :: "jsnum \<Rightarrow> jsnum \<Rightarrow> jsnum" where
  "js_minus (Num a) (Num b) = Num (a - b)"
| "js_minus a b = NaN"

fun js_le :: "jsnum \<Rightarrow> jsnum \<Rightarrow> bool" where
  "js_le (Num a) (Num b) = (a \<le> b)"
| "js_le a b = False"

fun js_lt :: "jsnum \<Rightarrow> jsnum \<Rightarrow> bool" where
  "js_lt (Num a) (Num b) = (a < b)"
| "js_lt a b = False"

fun js_gt :: "jsnum \<Rightarrow> jsnum \<Rightarrow> bool" where
  "js_gt (Num a) (Num b) = (a > b)"
| "js_gt a b = False"

text \<open>A string is truthy when it is not empty.\<close>

definition nonempty :: "string option \<Rightarrow> bool" where
  "nonempty s = (case s of None \<Rightarrow> False | Some t \<Rightarrow> t \<noteq> [])"

text \<open>
  \<open>s || undefined\<close> on an optional string: the string when it is truthy. The tests
  \<open>if (s)\<close> of the program on optional strings are case distinctions on it.
\<close>

definition or_undefined :: "string option \<Rightarrow> string option" where
  "or_undefined s = (if nonempty s then s else None)"

subsection \<open>\<open>parseInt(s, 10)\<close> and \<open>Number.prototype.toString\<close>\<close>

text \<open>
  \<open>parseInt(s, 10)\<close> skips leading white space, reads an optional sign and the longest
  run of decimal digits; with no digit the result is \<open>NaN\<close>. Whatever follows the digits is
  ignored.
\<close>

definition is_space :: "char \<Rightarrow> bool" where
  "is_space c = (c \<in> set [CHR 0x09, CHR 0x0A, CHR 0x0B, CHR 0x0C, CHR 0x0D, CHR 0x20])"

definition is_digit :: "char \<Rightarrow> bool" where
  "is_digit c = (c \<in> set ''0123456789'')"

text \<open>The value of a digit is its place in \<open>0123456789\<close>.\<close>

definition digit_val :: "char \<Rightarrow> int" where
  "digit_val c = int (length (takeWhile (\<lambda>d. d \<noteq> c) ''0123456789''))"

definition digits_value :: "string \<Rightarrow> int" where
  "digits_value ds = foldl (\<lambda>acc c. acc * 10 + digit_val c) 0 ds"

definition parseInt :: "string \<Rightarrow> jsnum" where
  "parseInt s =
     (let S = dropWhile is_space s;
          sign = (case S of c # r \<Rightarrow> if c = CHR ''-'' then - 1 else 1 | [] \<Rightarrow> (1::int));
          S' = (case S of c # r \<Rightarrow> if c = CHR ''-'' \<or> c = CHR ''+'' then r else S | [] \<Rightarrow> S);
          Z = takeWhile is_digit S'
      in if Z = [] then NaN else Num (sign * digits_value Z))"

definition digit_char :: "int \<Rightarrow> char" where
  "digit_char d = ''0123456789'' ! nat d"

function digits_of :: "int \<Rightarrow> string" where
  "digits_of n = (if n < 10 then [digit_char n] else digits_of (n div 10) @ [digit_char (n mod 10)])"
  by pat_completeness auto

termination
  by (relation "measure nat") auto

declare digits_of.simps [simp del]

text \<open>\<open>n.toString()\<close> for an integer \<open>n\<close>.\<close>

definition toString :: "int \<Rightarrow> string" where
  "toString n = (if n < 0 then CHR ''-'' # digits_of (- n) else digits_of n)"

subsection \<open>\<open>String.prototype.split\<close> on one separator character\<close>

fun split :: "char \<Rightarrow> string \<Rightarrow> string list" where
  "split sep [] = [[]]"
| "split sep (c # cs) =
     (if c = sep then [] # split sep cs
      else (case split sep cs of p # ps \<Rightarrow> (c # p) # ps | [] \<Rightarrow> [[c]]))"

section \<open>The Expiry Oracle: \<open>getJwtExpiration\<close>\<close>

text \<open>
  \<^verbatim>\<open>
  function getJwtExpiration(token: string): number | null {
    try {
      const parts = token.split('.');
      if (parts.length !== 3) return null;
      const payload = JSON.parse(Buffer.from(parts[1], 'base64url').toString());
      return payload.exp ? payload.exp * 1000 : null;
    } catch {
      return null;
    }
  }
  \<close>
  The body of the \<open>try\<close> block is \<open>getJwtExpiration_try\<close>, whose \<open>Inl\<close> results are the
  exceptions it throws; the \<open>catch\<close> turns each of them into \<open>null\<close>.
\<close>

definition getJwtExpiration_try :: "runtime \<Rightarrow> string \<Rightarrow> js_error + jsnum option" where
  "getJwtExpiration_try rt tok =
     (let parts = split (CHR ''.'') tok in
      if length parts \<noteq> 3 then Inr None
      else
        (case JSON_parse rt (base64url_decode rt (parts ! 1)) of
           None \<Rightarrow> Inl SyntaxError
         | Some payload \<Rightarrow>
             (case get_prop payload ''exp'' of
                Inl e \<Rightarrow> Inl e
              | Inr ex \<Rightarrow>
                  Inr (if truthy ex then Some (js_times (ToNumber rt ex) 1000) else None))))"

definition getJwtExpiration :: "runtime \<Rightarrow> string \<Rightarrow> jsnum option" where
  "getJwtExpiration rt tok =
     (case getJwtExpiration_try rt tok of Inl e \<Rightarrow> None | Inr r \<Rightarrow> r)"

section \<open>The world outside the process\<close>

text \<open>
  The state the program reads and writes: the wall clock (\<open>Date.now()\<close>, epoch
  milliseconds), the two files under \<^verbatim>\<open>~/.config/clippy\<close> (\<^verbatim>\<open>browser.lock\<close> and
  \<^verbatim>\<open>token-cache.json\<close>, each absent or holding a text), whether that directory can
  be created and written (\<open>disk_ok\<close>), and whether \<^verbatim>\<open>token-cache.json\<close> itself can be
  written (\<open>cache_writable\<close>: a read-only cache file stops \<open>writeFile\<close> and nothing else).
  \<open>events\<close> is the record of what the process did, oldest first.

  The clock advances when the process sleeps and while a browser session runs; file
  operations take no time. The files are changed by this process only.
\<close>

datatype source = ExplicitToken | EnvironmentOverride | TokenCache | InteractiveExtraction

datatype event =
    Consult source
  | Validate jsval bool
  | CacheWrite string
  | LockRead
  | LockUnlink
  | LockCreate
  | LockRelease
  | Sleep int
  | Browser bool int

record world =
  now :: int
  disk_ok :: bool
  cache_writable :: bool
  lock_file :: "string option"
  cache_file :: "string option"
  events :: "event list"

definition log :: "event \<Rightarrow> world \<Rightarrow> world" where
  "log e w = w\<lparr>events := events w @ [e]\<rparr>"

definition sleep :: "int \<Rightarrow> world \<Rightarrow> world" where
  "sleep ms w = log (Sleep ms) (w\<lparr>now := now w + ms\<rparr>)"

text \<open>
  What a browser session leaves behind: the values of \<open>capturedToken\<close> and
  \<open>capturedGraphToken\<close> when the waiting loops of \<open>tryExtractToken\<close> end, or the message
  of the error that the launch, the navigation or a wait threw.
\<close>

datatype session = Finished "string option" "string option" | Threw string

text \<open>
  The surroundings the program cannot control:
  \<^item> \<open>fetch_ok t v\<close>: the \<open>response.ok\<close> of the probe that \<open>validateSession\<close> sends at
    time \<open>t\<close> with \<open>Authorization: Bearer v\<close>, or \<open>None\<close> when \<open>fetch\<close> rejects;
  \<^item> \<open>CLIPPY_TOKEN\<close>: the environment variable;
  \<^item> \<open>chromium headless timeout t\<close>: the browser session started at time \<open>t\<close> and the
    milliseconds it takes;
  \<^item> \<open>page_tokens t\<close>: \<open>lastToken\<close> and \<open>lastGraphToken\<close> of the keepalive session at
    time \<open>t\<close>.
\<close>

record env =
  fetch_ok :: "int \<Rightarrow> jsval \<Rightarrow> bool option"
  CLIPPY_TOKEN :: "string option"
  chromium :: "bool \<Rightarrow> int \<Rightarrow> int \<Rightarrow> session \<times> nat"
  page_tokens :: "int \<Rightarrow> string option \<times> string option"

section \<open>The Session Validator: \<open>validateSession\<close>\<close>

text \<open>
  \<^verbatim>\<open>
  export async function validateSession(token: string): Promise<boolean> {
    const url = 'https://outlook.office.com/api/v2.0/me/mailfolders/inbox';
    try {
      const response = await fetch(url, { headers: { Authorization: `Bearer ${token}`, ... } });
      return response.ok;
    } catch {
      return false;
    }
  }
  \<close>
\<close>

definition validateSession :: "env \<Rightarrow> jsval \<Rightarrow> world \<Rightarrow> bool \<times> world" where
  "validateSession ev tok w =
     (let ok = (case fetch_ok ev (now w) tok of Some b \<Rightarrow> b | None \<Rightarrow> False)
      in (ok, log (Validate tok ok) w))"

section \<open>The Token Cache: \<open>getCachedToken\<close> and \<open>setCachedToken\<close>\<close>

definition REFRESH_THRESHOLD :: int where
  "REFRESH_THRESHOLD = 5 * 60 * 1000"

text \<open>
  \<^verbatim>\<open>
  async function getCachedToken(): Promise<{ cached: CachedToken; needsRefresh: boolean } | null> {
    try {
      const data = await readFile(TOKEN_CACHE_FILE, 'utf-8');
      const cached = JSON.parse(data) as CachedToken;
      const now = Date.now();
      if (cached.expiresAt <= now) {
        return null; // Expired
      }
      const needsRefresh = (cached.expiresAt - now) < REFRESH_THRESHOLD;
      return { cached, needsRefresh };
    } catch {
      // No cache or invalid cache
    }
    return null;
  }
  \<close>
  \<open>as CachedToken\<close> is a compile-time annotation: nothing checks the parsed value.
\<close>

definition getCachedToken_try :: "runtime \<Rightarrow> world \<Rightarrow> js_error + (json \<times> bool) option" where
  "getCachedToken_try rt w =
     (case cache_file w of
        None \<Rightarrow> Inl ENOENT
      | Some data \<Rightarrow>
          (case JSON_parse rt data of
             None \<Rightarrow> Inl SyntaxError
           | Some cached \<Rightarrow>
               (case get_prop cached ''expiresAt'' of
                  Inl e \<Rightarrow> Inl e
                | Inr expiresAt \<Rightarrow>
                    if js_le (ToNumber rt expiresAt) (Num (now w)) then Inr None
                    else
                      (let needsRefresh =
                             js_lt (js_minus (ToNumber rt expiresAt) (Num (now w)))
                               (Num REFRESH_THRESHOLD)
                       in Inr (Some (cached, needsRefresh))))))"

definition getCachedToken :: "runtime \<Rightarrow> world \<Rightarrow> (json \<times> bool) option" where
  "getCachedToken rt w =
     (case getCachedToken_try rt w of Inl e \<Rightarrow> None | Inr r \<Rightarrow> r)"

text \<open>
  \<^verbatim>\<open>
  export async function setCachedToken(token: string, graphToken?: string): Promise<void> {
    try {
      const cacheDir = join(homedir(), '.config', 'clippy');
      await mkdir(cacheDir, { recursive: true });
      const expiresAt = getJwtExpiration(token) || (Date.now() + 55 * 60 * 1000);
      const cached: CachedToken = { token, graphToken, expiresAt };
      await writeFile(TOKEN_CACHE_FILE, JSON.stringify(cached), 'utf-8');
    } catch {
      // Ignore cache write errors
    }
  }
  \<close>
  \<open>mkdir\<close> rejects when the directory cannot be created; \<open>writeFile\<close> rejects when the
  directory or the file cannot be written.
  \<open>expiresAt_of rt token t\<close> is \<open>getJwtExpiration(token) || (Date.now() + 55 * 60 * 1000)\<close>
  at time \<open>t\<close>: \<open>a || b\<close> is \<open>b\<close> when \<open>a\<close> is \<open>null\<close>, \<open>0\<close> or \<open>NaN\<close>.
  \<open>cached_record\<close> is the object \<open>{ token, graphToken, expiresAt }\<close> as
  \<open>JSON.stringify\<close> sees it: it leaves out a property that is \<open>undefined\<close>.
\<close>

definition mkdir :: "world \<Rightarrow> js_error + unit" where
  "mkdir w = (if disk_ok w then Inr () else Inl EACCES)"

definition expiresAt_of :: "runtime \<Rightarrow> string \<Rightarrow> int \<Rightarrow> int" where
  "expiresAt_of rt tok t =
     (case getJwtExpiration rt tok of
        Some (Num n) \<Rightarrow> if n \<noteq> 0 then n else t + 55 * 60 * 1000
      | _ \<Rightarrow> t + 55 * 60 * 1000)"

definition cached_record :: "string \<Rightarrow> string option \<Rightarrow> int \<Rightarrow> json" where
  "cached_record tok graphTok expiresAt =
     JObj ([(''token'', JStr tok)]
           @ (case graphTok of None \<Rightarrow> [] | Some g \<Rightarrow> [(''graphToken'', JStr g)])
           @ [(''expiresAt'', JNum expiresAt)])"

definition writeFile_cache :: "string \<Rightarrow> world \<Rightarrow> js_error + world" where
  "writeFile_cache content w =
     (if disk_ok w \<and> cache_writable w then Inr (w\<lparr>cache_file := Some content\<rparr>)
      else Inl EACCES)"

definition setCachedToken_try ::
  "runtime \<Rightarrow> string \<Rightarrow> string option \<Rightarrow> world \<Rightarrow> js_error + world" where
  "setCachedToken_try rt tok graphTok w =
     (case mkdir w of
        Inl e \<Rightarrow> Inl e
      | Inr u \<Rightarrow>
          (let expiresAt = expiresAt_of rt tok (now w);
               cached = cached_record tok graphTok expiresAt
           in case writeFile_cache (JSON_stringify rt cached) w of
                Inl e \<Rightarrow> Inl e
              | Inr w' \<Rightarrow> Inr (log (CacheWrite tok) w')))"

text \<open>
  The result of the \<open>async\<close> function: \<open>Inl\<close> would be a rejected promise, \<open>Inr\<close> is the
  world after it resolved.
\<close>

definition setCachedToken ::
  "runtime \<Rightarrow> string \<Rightarrow> string option \<Rightarrow> world \<Rightarrow> js_error + world" where
  "setCachedToken rt tok graphTok w =
     (case setCachedToken_try rt tok graphTok w of Inl e \<Rightarrow> Inr w | Inr w' \<Rightarrow> Inr w')"

section \<open>The Cross-Process Lock: \<open>acquireLock\<close>\<close>

definition LOCK_TIMEOUT :: int where
  "LOCK_TIMEOUT = 60000"

datatype LockHandle = LockHandle

text \<open>
  \<open>unlink\<close> rejects when the file is missing or the directory cannot be written.
  \<open>create_lock\<close> is \<open>open(LOCK_FILE, 'wx')\<close> followed by
  \<open>fd.write(Date.now().toString())\<close> and \<open>fd.close()\<close>: the exclusive create rejects with
  \<open>EEXIST\<close> when the marker is there.
\<close>

definition unlink_lock :: "world \<Rightarrow> js_error + world" where
  "unlink_lock w =
     (case lock_file w of
        None \<Rightarrow> Inl ENOENT
      | Some s \<Rightarrow> if disk_ok w then Inr (w\<lparr>lock_file := None\<rparr>) else Inl EACCES)"

definition create_lock :: "world \<Rightarrow> js_error + world" where
  "create_lock w =
     (case lock_file w of
        Some s \<Rightarrow> Inl EEXIST
      | None \<Rightarrow>
          if disk_ok w then Inr (w\<lparr>lock_file := Some (toString (now w))\<rparr>) else Inl EACCES)"

text \<open>
  \<^verbatim>\<open>
  async function acquireLock(timeout: number = 10000): Promise<LockHandle | null> {
    const startTime = Date.now();
    while (Date.now() - startTime < timeout) {
      try {
        try {
          const lockData = await readFile(LOCK_FILE, 'utf-8');
          const lockTime = parseInt(lockData, 10);
          if (Date.now() - lockTime > LOCK_TIMEOUT) {
            await unlink(LOCK_FILE);                        // Stale lock, remove it
          } else {
            await new Promise(r => setTimeout(r, 500));     // Lock is held, wait and retry
            continue;
          }
        } catch {
          // Lock doesn't exist, proceed
        }
        await mkdir(join(homedir(), '.config', 'clippy'), { recursive: true });
        const fd = await open(LOCK_FILE, 'wx');
        await fd.write(Date.now().toString());
        await fd.close();
        return { release: ... };
      } catch (err: unknown) {
        if (err && typeof err === 'object' && 'code' in err && err.code === 'EEXIST') {
          await new Promise(r => setTimeout(r, 500));
          continue;
        }
        await new Promise(r => setTimeout(r, 100));
      }
    }
    return null; // Couldn't acquire lock
  }
  \<close>
  \<open>stale t lockData\<close> is the test \<open>Date.now() - lockTime > LOCK_TIMEOUT\<close> at time \<open>t\<close>;
  a comparison with \<open>NaN\<close> is false. \<open>check_marker\<close> is the inner \<open>try\<close>:
  \<open>None\<close> when the marker is held (the branch that sleeps and continues), otherwise the world in which the exclusive create is attempted.
  The inner \<open>catch\<close> swallows the rejection of \<open>readFile\<close> and of \<open>unlink\<close>.
  \<open>acquireLock_iteration\<close> is one turn of the loop: the handle, or the world after the
  sleep that precedes the next turn.
\<close>

definition stale :: "int \<Rightarrow> string \<Rightarrow> bool" where
  "stale t lockData =
     (let lockTime = parseInt lockData in js_gt (js_minus (Num t) lockTime) (Num LOCK_TIMEOUT))"

definition check_marker :: "world \<Rightarrow> world option" where
  "check_marker w =
     (case lock_file w of
        None \<Rightarrow> Some w
      | Some lockData \<Rightarrow>
          (if stale (now w) lockData
           then (case unlink_lock (log LockUnlink w) of
                   Inl e \<Rightarrow> Some (log LockUnlink w)
                 | Inr w' \<Rightarrow> Some w')
           else None))"

definition retry_delay :: "js_error \<Rightarrow> int" where
  "retry_delay e = (if e = EEXIST then 500 else 100)"

definition acquireLock_iteration :: "world \<Rightarrow> LockHandle option \<times> world" where
  "acquireLock_iteration w =
     (let w1 = log LockRead w in
      case check_marker w1 of
        None \<Rightarrow> (None, sleep 500 w1)
      | Some w2 \<Rightarrow>
          (case mkdir w2 of
             Inl e \<Rightarrow> (None, sleep (retry_delay e) w2)
           | Inr u \<Rightarrow>
               (case create_lock w2 of
                  Inl e \<Rightarrow> (None, sleep (retry_delay e) w2)
                | Inr w3 \<Rightarrow> (Some LockHandle, log LockCreate w3))))"

function acquireLock_loop :: "int \<Rightarrow> int \<Rightarrow> world \<Rightarrow> LockHandle option \<times> world" where
  "acquireLock_loop startTime timeout w =
     (if now w - startTime < timeout then
        (let r = acquireLock_iteration w in
         case fst r of
           Some h \<Rightarrow> (Some h, snd r)
         | None \<Rightarrow> acquireLock_loop startTime timeout (snd r))
      else (None, w))"
  by pat_completeness auto

termination
proof (relation "measure (\<lambda>(startTime, timeout, w). nat (startTime + timeout - now w))")
  show "wf (measure (\<lambda>(startTime, timeout, w). nat (startTime + timeout - now w)))"
    by simp
next
  fix startTime timeout :: int and w :: world and r
  assume before: "now w - startTime < timeout"
    and r: "r = acquireLock_iteration w" and again: "fst r = None"
  have same: "now w2 = now w1" if "check_marker w1 = Some w2" for w1 w2
    using that
    by (auto simp: check_marker_def unlink_lock_def log_def
          split: option.splits if_splits sum.splits)
  have "now w + 100 \<le> now (snd (acquireLock_iteration w))"
    using again r
    by (auto simp: acquireLock_iteration_def Let_def retry_delay_def sleep_def log_def
          split: option.splits sum.splits dest!: same)
  with before r show "((startTime, timeout, snd r), startTime, timeout, w)
        \<in> measure (\<lambda>(startTime, timeout, w). nat (startTime + timeout - now w))"
    by simp
qed

declare acquireLock_loop.simps [simp del]

definition acquireLock :: "int \<Rightarrow> world \<Rightarrow> LockHandle option \<times> world" where
  "acquireLock timeout w = acquireLock_loop (now w) timeout w"

text \<open>\<open>release\<close> of the handle: \<open>try { await unlink(LOCK_FILE) } catch { }\<close>.\<close>

definition release :: "world \<Rightarrow> world" where
  "release w =
     (case unlink_lock (log LockRelease w) of
        Inl e \<Rightarrow> log LockRelease w
      | Inr w' \<Rightarrow> w')"

section \<open>The Credential Extractor\<close>

record PlaywrightTokenResult =
  pw_success :: bool
  pw_token :: "string option"
  pw_graphToken :: "string option"
  pw_error :: "string option"

definition pw_failure :: "string \<Rightarrow> PlaywrightTokenResult" where
  "pw_failure msg =
     \<lparr>pw_success = False, pw_token = None, pw_graphToken = None, pw_error = Some msg\<rparr>"

text \<open>The \<open>message\<close> of a file-system error, without the path that follows it.\<close>

definition message :: "js_error \<Rightarrow> string" where
  "message e =
     (if e = EACCES then ''EACCES: permission denied''
      else if e = EEXIST then ''EEXIST: file already exists''
      else if e = ENOENT then ''ENOENT: no such file or directory''
      else ''Unknown error during token extraction'')"

text \<open>
  \<^verbatim>\<open>
  async function tryExtractToken(headless: boolean, timeout: number): Promise<PlaywrightTokenResult> {
    const lock = await acquireLock(headless ? 5000 : 30000);
    if (!lock) {
      return { success: false, error: 'Another browser session is in progress, please wait' };
    }
    let context;
    try {
      const userDataDir = join(homedir(), '.config', 'clippy', 'browser-profile');
      await mkdir(userDataDir, { recursive: true });
      context = await chromium.launchPersistentContext(userDataDir, { headless, ... });
      ...                       // the request listener, page.goto and the two waiting loops
      await context.close();
      await lock.release();
      if (capturedToken) {
        return { success: true, token: capturedToken, graphToken: capturedGraphToken || undefined };
      }
      return { success: false,
               error: headless ? 'No active session found'
                               : 'Timeout: No Bearer token captured. Make sure you completed the login.' };
    } catch (err) {
      if (context) { await context.close(); }
      await lock.release();
      return { success: false,
               error: err instanceof Error ? err.message : 'Unknown error during token extraction' };
    }
  }
  \<close>
  How the browser renders pages is outside the program: the session between the launch and
  \<open>context.close()\<close> is the answer of \<open>chromium\<close>, and closing the context does not
  throw.
\<close>

definition tryExtractToken :: "env \<Rightarrow> bool \<Rightarrow> int \<Rightarrow> world \<Rightarrow> PlaywrightTokenResult \<times> world" where
  "tryExtractToken ev headless timeout w =
     (case acquireLock (if headless then 5000 else 30000) w of
        (None, w1) \<Rightarrow>
          (pw_failure ''Another browser session is in progress, please wait'', w1)
      | (Some lock, w1) \<Rightarrow>
          (case mkdir w1 of
             Inl e \<Rightarrow> (pw_failure (message e), release w1)
           | Inr u \<Rightarrow>
               (case chromium ev headless timeout (now w1) of
                  (s, elapsed) \<Rightarrow>
                    (let w2 = (log (Browser headless timeout) w1)\<lparr>now := now w1 + int elapsed\<rparr> in
                     case s of
                       Threw msg \<Rightarrow> (pw_failure msg, release w2)
                     | Finished capturedToken capturedGraphToken \<Rightarrow>
                         (let w3 = release w2 in
                          if nonempty capturedToken then
                            (\<lparr>pw_success = True, pw_token = capturedToken,
                              pw_graphToken = or_undefined capturedGraphToken,
                              pw_error = None\<rparr>, w3)
                          else
                            (pw_failure
                               (if headless then ''No active session found''
                                else ''Timeout: No Bearer token captured. Make sure you completed the login.''),
                             w3))))))"

text \<open>
  \<^verbatim>\<open>
  export async function extractTokenViaPlaywright(
    options: { headless?: boolean; timeout?: number } = {}
  ): Promise<PlaywrightTokenResult> {
    const { headless = true, timeout = 15000 } = options;
    const result = await tryExtractToken(headless, timeout);
    if (result.success) {
      return result;
    }
    // If headless failed and we haven't tried visible yet, retry with visible browser
    if (headless) {
      console.log('Session not found. Opening browser for login...');
      return tryExtractToken(false, 60000);  // Give more time for manual login
    }
    return result;
  }
  \<close>
  The callers pass the defaults explicitly: \<open>extractTokenViaPlaywright()\<close> is
  \<open>extractTokenViaPlaywright ev True 15000\<close>.
\<close>

definition extractTokenViaPlaywright ::
  "env \<Rightarrow> bool \<Rightarrow> int \<Rightarrow> world \<Rightarrow> PlaywrightTokenResult \<times> world" where
  "extractTokenViaPlaywright ev headless timeout w =
     (case tryExtractToken ev headless timeout w of
        (result, w1) \<Rightarrow>
          if pw_success result then (result, w1)
          else if headless then tryExtractToken ev False 60000 w1
          else (result, w1))"

section \<open>The Auth Resolver: \<open>resolveAuth\<close>\<close>

record options =
  cliToken :: "string option"
  interactive :: bool

record AuthResult =
  success :: bool
  token :: jsval
  graphToken :: jsval
  error :: "string option"

definition auth_failure :: "string \<Rightarrow> AuthResult" where
  "auth_failure msg = \<lparr>success = False, token = None, graphToken = None, error = Some msg\<rparr>"

definition js_string :: "string option \<Rightarrow> jsval" where
  "js_string s = map_option JStr s"

text \<open>
  \<open>result.success && result.token\<close>: the token when the conjunction is truthy.
  \<open>or_else e d\<close> is \<open>e || d\<close> on an optional string.
\<close>

definition success_and_token :: "PlaywrightTokenResult \<Rightarrow> string option" where
  "success_and_token result = (if pw_success result then or_undefined (pw_token result) else None)"

definition or_else :: "string option \<Rightarrow> string \<Rightarrow> string" where
  "or_else e d = (case or_undefined e of Some m \<Rightarrow> m | None \<Rightarrow> d)"


text \<open>
  \<^verbatim>\<open>
  export async function resolveAuth(options: { token?: string; interactive?: boolean }): Promise<AuthResult> {
    const { token: cliToken, interactive = false } = options;

    // Priority 1: CLI flag
    if (cliToken) {
      const isValid = await validateSession(cliToken);
      if (isValid) { return { success: true, token: cliToken }; }
      return { success: false, error: 'Provided token is invalid or expired' };
    }

    // Priority 2: Environment variable
    const envToken = process.env.CLIPPY_TOKEN;
    if (envToken) {
      const isValid = await validateSession(envToken);
      if (isValid) { return { success: true, token: envToken }; }
      return { success: false,
               error: 'CLIPPY_TOKEN environment variable contains invalid or expired token' };
    }

    // Priority 3: Cached token (fast path - no browser needed)
    const cachedResult = await getCachedToken();
    if (cachedResult) {
      const { cached, needsRefresh } = cachedResult;
      const isValid = await validateSession(cached.token);
      if (isValid) {
        // If token is expiring soon, refresh in background (silent)
        if (needsRefresh && interactive) {
          extractTokenViaPlaywright({ headless: true, timeout: 10000 }).then(...).catch(() => {});
        }
        return { success: true, token: cached.token, graphToken: cached.graphToken };
      }
      // Cache is stale, will re-extract below
    }

    // Priority 4: Interactive Playwright extraction
    if (interactive) {
      const playwrightResult = await extractTokenViaPlaywright();
      if (playwrightResult.success && playwrightResult.token) {
        const isValid = await validateSession(playwrightResult.token);
        if (isValid) {
          await setCachedToken(playwrightResult.token, playwrightResult.graphToken);
          return { success: true, token: playwrightResult.token,
                   graphToken: playwrightResult.graphToken };
        }
        return { success: false, error: 'Extracted token is invalid or expired' };
      }
      return { success: false,
               error: playwrightResult.error || 'Failed to extract token via browser' };
    }

    // No token available and not interactive
    return { success: false,
             error: 'No token available. Set CLIPPY_TOKEN env var or run with --interactive to extract via browser.' };
  }
  \<close>
  The model follows the four priorities: \<open>resolveAuth\<close> is priorities 1 and 2,
  \<open>resolve_cached\<close> the text from priority 3 on and \<open>resolve_interactive\<close> the text
  from priority 4 on. \<open>cached.token\<close> is read with \<open>field\<close>: \<open>getCachedToken\<close>
  never returns \<open>null\<close> as the cached value. \<open>Consult s\<close> is logged where the program turns to
  source \<open>s\<close>: at the test of \<open>cliToken\<close>, at the read of \<open>process.env.CLIPPY_TOKEN\<close>,
  at the call of \<open>getCachedToken\<close> and at each call of \<open>extractTokenViaPlaywright\<close>.
  The result is the \<open>AuthResult\<close>, whether the detached refresh was started, and the world
  when \<open>resolveAuth\<close> returns; \<open>Inl\<close> would be a rejected promise.
\<close>

definition resolve_interactive ::
  "env \<Rightarrow> runtime \<Rightarrow> options \<Rightarrow> world \<Rightarrow> js_error + (AuthResult \<times> bool \<times> world)" where
  "resolve_interactive ev rt opts w =
     (if interactive opts then
        (case extractTokenViaPlaywright ev True 15000 (log (Consult InteractiveExtraction) w) of
           (playwrightResult, w1) \<Rightarrow>
             (case success_and_token playwrightResult of
                Some tok \<Rightarrow>
                  (case validateSession ev (Some (JStr tok)) w1 of
                     (isValid, w2) \<Rightarrow>
                       if isValid then
                         (case setCachedToken rt tok (pw_graphToken playwrightResult) w2 of
                            Inl e \<Rightarrow> Inl e
                          | Inr w3 \<Rightarrow>
                              Inr (\<lparr>success = True, token = Some (JStr tok),
                                    graphToken = js_string (pw_graphToken playwrightResult),
                                    error = None\<rparr>, False, w3))
                       else Inr (auth_failure ''Extracted token is invalid or expired'', False, w2))
              | None \<Rightarrow>
                  Inr (auth_failure
                         (or_else (pw_error playwrightResult) ''Failed to extract token via browser''),
                       False, w1)))
      else
        Inr (auth_failure
               ''No token available. Set CLIPPY_TOKEN env var or run with --interactive to extract via browser.'',
             False, w))"

definition resolve_cached ::
  "env \<Rightarrow> runtime \<Rightarrow> options \<Rightarrow> world \<Rightarrow> js_error + (AuthResult \<times> bool \<times> world)" where
  "resolve_cached ev rt opts w =
     (let w0 = log (Consult TokenCache) w in
      case getCachedToken rt w0 of
        Some (cached, needsRefresh) \<Rightarrow>
          (case validateSession ev (field cached ''token'') w0 of
             (isValid, w1) \<Rightarrow>
               if isValid then
                 (let spawn = (needsRefresh \<and> interactive opts);
                      w2 = (if spawn then log (Consult InteractiveExtraction) w1 else w1)
                  in Inr (\<lparr>success = True, token = field cached ''token'',
                           graphToken = field cached ''graphToken'', error = None\<rparr>, spawn, w2))
               else resolve_interactive ev rt opts w1)
      | None \<Rightarrow> resolve_interactive ev rt opts w0)"

definition resolveAuth ::
  "env \<Rightarrow> runtime \<Rightarrow> options \<Rightarrow> world \<Rightarrow> js_error + (AuthResult \<times> bool \<times> world)" where
  "resolveAuth ev rt opts w =
     (let w0 = log (Consult ExplicitToken) w in
      case or_undefined (cliToken opts) of
        Some tok \<Rightarrow>
          (case validateSession ev (Some (JStr tok)) w0 of
             (isValid, w1) \<Rightarrow>
               if isValid then
                 Inr (\<lparr>success = True, token = Some (JStr tok), graphToken = None,
                       error = None\<rparr>, False, w1)
               else Inr (auth_failure ''Provided token is invalid or expired'', False, w1))
      | None \<Rightarrow>
          (let w1 = log (Consult EnvironmentOverride) w0 in
           case or_undefined (CLIPPY_TOKEN ev) of
             Some envToken \<Rightarrow>
               (case validateSession ev (Some (JStr envToken)) w1 of
                  (isValid, w2) \<Rightarrow>
                    if isValid then
                      Inr (\<lparr>success = True, token = Some (JStr envToken), graphToken = None,
                            error = None\<rparr>, False, w2)
                    else
                      Inr (auth_failure
                             ''CLIPPY_TOKEN environment variable contains invalid or expired token'',
                           False, w2))
           | None \<Rightarrow> resolve_cached ev rt opts w1))"


section \<open>The Keepalive Loop: \<open>startKeepaliveSession\<close>\<close>

text \<open>
  \<^verbatim>\<open>
    // Main keepalive loop
    while (true) {
      await sleep(2000);
      if (lastToken) {
        await setCachedToken(lastToken, lastGraphToken || undefined);
      }
      await sleep(intervalMinutes * 60 * 1000);
      try {
        await page.reload({ waitUntil: 'domcontentloaded', timeout: 60000 });
      } catch {
        try { await page.goto('https://outlook.office.com/mail/', ...); } catch { }
      }
    }
  \<close>
  The loop never ends; \<open>keepalive_turn\<close> is one turn and \<open>keepalive_loop n\<close> the first
  \<open>n\<close> turns. \<open>lastToken\<close> and \<open>lastGraphToken\<close> are written by the request listener;
  their values when the turn reads them are \<open>page_tokens\<close> at that time. The reload
  changes nothing the model records.
\<close>

definition keepalive_turn :: "env \<Rightarrow> runtime \<Rightarrow> int \<Rightarrow> world \<Rightarrow> js_error + world" where
  "keepalive_turn ev rt intervalMinutes w =
     (let w1 = sleep 2000 w in
      case page_tokens ev (now w1) of
        (lastToken, lastGraphToken) \<Rightarrow>
          (case (case or_undefined lastToken of
                   Some tok \<Rightarrow> setCachedToken rt tok (or_undefined lastGraphToken) w1
                 | None \<Rightarrow> Inr w1) of
             Inl e \<Rightarrow> Inl e
           | Inr w2 \<Rightarrow> Inr (sleep (intervalMinutes * 60 * 1000) w2)))"

fun keepalive_loop :: "nat \<Rightarrow> env \<Rightarrow> runtime \<Rightarrow> int \<Rightarrow> world \<Rightarrow> js_error + world" where
  "keepalive_loop 0 ev rt intervalMinutes w = Inr w"
| "keepalive_loop (Suc n) ev rt intervalMinutes w =
     (case keepalive_turn ev rt intervalMinutes w of
        Inl e \<Rightarrow> Inl e
      | Inr w' \<Rightarrow> keepalive_loop n ev rt intervalMinutes w')"

section \<open>Reading a trace\<close>

text \<open>
  The events of the lock are \<open>lock_event\<close>s; together with the release of the lock and
  the browser session they are the \<open>quiet\<close> events: they consult no source, validate
  nothing and write no cache. \<open>extends P w w'\<close>: the world \<open>w'\<close> comes after \<open>w\<close> by
  events that satisfy \<open>P\<close>, with the cache file untouched and the clock not set back.
\<close>

fun lock_event :: "event \<Rightarrow> bool" where
  "lock_event LockRead = True"
| "lock_event LockUnlink = True"
| "lock_event LockCreate = True"
| "lock_event (Sleep ms) = True"
| "lock_event e = False"

fun quiet :: "event \<Rightarrow> bool" where
  "quiet (Consult s) = False"
| "quiet (Validate v b) = False"
| "quiet (CacheWrite t) = False"
| "quiet e = True"

definition extends :: "(event \<Rightarrow> bool) \<Rightarrow> world \<Rightarrow> world \<Rightarrow> bool" where
  "extends P w w' =
     ((\<exists>xs. events w' = events w @ xs \<and> list_all P xs)
      \<and> cache_file w' = cache_file w \<and> cache_writable w' = cache_writable w
      \<and> disk_ok w' = disk_ok w \<and> now w \<le> now w')"

text \<open>\<open>polls k w\<close>: the world after \<open>k\<close> turns that read the marker and slept 500 ms.\<close>

fun polls :: "nat \<Rightarrow> world \<Rightarrow> world" where
  "polls 0 w = w"
| "polls (Suc k) w = polls k (sleep 500 (log LockRead w))"

text \<open>
  Three readings of a trace. \<open>consulted\<close> lists the sources it consults, in order.
  \<open>after_success\<close> finds the first validation that succeeded: the credential and the
  events that come after it. \<open>validated_writes seen\<close> tells whether every cache write in
  it comes after a successful validation of the very token written (\<open>seen\<close> holds the
  credentials validated so far).
\<close>

fun consulted :: "event list \<Rightarrow> source list" where
  "consulted [] = []"
| "consulted (Consult s # es) = s # consulted es"
| "consulted (e # es) = consulted es"

fun after_success :: "event list \<Rightarrow> (jsval \<times> event list) option" where
  "after_success [] = None"
| "after_success (Validate v b # es) = (if b then Some (v, es) else after_success es)"
| "after_success (e # es) = after_success es"

fun validated_writes :: "jsval list \<Rightarrow> event list \<Rightarrow> bool" where
  "validated_writes seen [] = True"
| "validated_writes seen (Validate v b # es) = validated_writes (if b then v # seen else seen) es"
| "validated_writes seen (CacheWrite t # es) =
     (Some (JStr t) \<in> set seen \<and> validated_writes seen es)"
| "validated_writes seen (e # es) = validated_writes seen es"

definition source_order :: "source list" where
  "source_order = [ExplicitToken, EnvironmentOverride, TokenCache, InteractiveExtraction]"

text \<open>
  The shape of the trace of each priority, with the result it comes with: of the
  interactive extraction, of the cache step followed by it, and of \<open>resolveAuth\<close>.
  \<open>source_order\<close> is the documented order of the sources.
\<close>

definition interactive_trace :: "options \<Rightarrow> AuthResult \<Rightarrow> event list \<Rightarrow> bool" where
  "interactive_trace opts r xs =
     (if interactive opts then
        (\<exists>q. list_all quiet q \<and>
           ((xs = Consult InteractiveExtraction # q \<and> \<not> success r)
            \<or> (\<exists>tok. xs = Consult InteractiveExtraction # q @ [Validate (Some (JStr tok)) False]
                   \<and> \<not> success r)
            \<or> (\<exists>tok. (xs = Consult InteractiveExtraction # q @ [Validate (Some (JStr tok)) True]
                      \<or> xs = Consult InteractiveExtraction # q
                               @ [Validate (Some (JStr tok)) True, CacheWrite tok])
                   \<and> success r \<and> token r = Some (JStr tok))))
      else xs = [] \<and> \<not> success r)"

definition cached_trace :: "options \<Rightarrow> AuthResult \<Rightarrow> bool \<Rightarrow> event list \<Rightarrow> bool" where
  "cached_trace opts r sp xs =
     ((\<exists>c. xs = [Consult TokenCache, Validate c True]
                 @ (if sp then [Consult InteractiveExtraction] else [])
           \<and> success r \<and> token r = c \<and> (sp \<longrightarrow> interactive opts))
      \<or> (\<not> sp \<and> (\<exists>ys. interactive_trace opts r ys
                    \<and> (xs = Consult TokenCache # ys
                        \<or> (\<exists>c. xs = Consult TokenCache # Validate c False # ys)))))"

definition resolve_trace :: "env \<Rightarrow> options \<Rightarrow> AuthResult \<Rightarrow> bool \<Rightarrow> event list \<Rightarrow> bool" where
  "resolve_trace ev opts r sp xs =
     (case or_undefined (cliToken opts) of
        Some t \<Rightarrow>
          \<not> sp \<and> (\<exists>b. xs = [Consult ExplicitToken, Validate (Some (JStr t)) b]
                     \<and> success r = b \<and> (b \<longrightarrow> token r = Some (JStr t)))
      | None \<Rightarrow>
          (case or_undefined (CLIPPY_TOKEN ev) of
             Some t \<Rightarrow>
               \<not> sp \<and> (\<exists>b. xs = [Consult ExplicitToken, Consult EnvironmentOverride,
                                  Validate (Some (JStr t)) b]
                          \<and> success r = b \<and> (b \<longrightarrow> token r = Some (JStr t)))
           | None \<Rightarrow>
               (\<exists>ys. xs = Consult ExplicitToken # Consult EnvironmentOverride # ys
                     \<and> cached_trace opts r sp ys)))"

text \<open>What the claims about \<open>resolveAuth\<close> read off its trace \<open>xs\<close>.\<close>

definition resolve_props :: "env \<Rightarrow> options \<Rightarrow> AuthResult \<Rightarrow> bool \<Rightarrow> event list \<Rightarrow> bool" where
  "resolve_props ev opts r sp xs =
     (prefix (consulted xs) source_order
      \<and> (case after_success xs of
            None \<Rightarrow> \<not> success r \<and> \<not> sp
          | Some (v, post) \<Rightarrow> success r \<and> token r = v
              \<and> consulted post = (if sp then [InteractiveExtraction] else []))
      \<and> validated_writes [] xs
      \<and> (success r \<longrightarrow> Validate (token r) True \<in> set xs)
      \<and> (sp \<longrightarrow> interactive opts \<and> consulted xs = source_order)
      \<and> (or_undefined (cliToken opts) \<noteq> None \<longrightarrow> consulted xs = [ExplicitToken])
      \<and> (or_undefined (cliToken opts) = None \<and> or_undefined (CLIPPY_TOKEN ev) \<noteq> None
           \<longrightarrow> consulted xs = [ExplicitToken, EnvironmentOverride])
      \<and> (or_undefined (cliToken opts) = None \<and> or_undefined (CLIPPY_TOKEN ev) = None
           \<longrightarrow> prefix [ExplicitToken, EnvironmentOverride, TokenCache] (consulted xs)))"

section \<open>Worlds, runtimes and surroundings of the examples\<close>

text \<open>
  \<open>example_world\<close>: a writable configuration directory with neither file, at some time.
  \<open>held_world\<close>: another process wrote the lock marker at this very moment.
\<close>

definition example_world :: world where
  "example_world =
     \<lparr>now = 1700000000000, disk_ok = True, cache_writable = True,
      lock_file = None, cache_file = None, events = []\<rparr>"

definition held_world :: world where
  "held_world = example_world\<lparr>lock_file := Some ''1700000000000''\<rparr>"


text \<open>
  \<open>example_env\<close>: the service accepts the tokens \<open>X\<close> and \<open>Y\<close> and no other, no environment
  token is set, every browser session captures the token \<open>Y\<close> within a second, and the
  keepalive session has seen the token \<open>T\<close>.
\<close>

definition example_env :: env where
  "example_env =
     \<lparr>fetch_ok = (\<lambda>t v. Some (v = Some (JStr ''X'') \<or> v = Some (JStr ''Y''))),
      CLIPPY_TOKEN = None,
      chromium = (\<lambda>headless timeout t. (Finished (Some ''Y'') None, 1000)),
      page_tokens = (\<lambda>t. (Some ''T'', None))\<rparr>"

text \<open>
  \<open>example_runtime\<close>: what Node answers on the texts of the examples (the base64url
  segments are \<open>{"exp":0}\<close>, \<open>{"exp":1700003600}\<close>, \<open>{"sub":"u"}\<close>, \<open>null\<close> and
  \<open>none\<close>); on any other text this runtime reports a parse error, and decodes and prints
  the empty text.
\<close>

definition example_runtime :: runtime where
  \<open>example_runtime =
     \<lparr>JSON_parse = (\<lambda>s.
        if s = ''{"exp":0}'' then Some (JObj [(''exp'', JNum 0)])
        else if s = ''{"exp":1700003600}'' then Some (JObj [(''exp'', JNum 1700003600)])
        else if s = ''{"sub":"u"}'' then Some (JObj [(''sub'', JStr ''u'')])
        else if s = ''null'' then Some JNull
        else if s = ''{"token":"X"}'' then Some (JObj [(''token'', JStr ''X'')])
        else if s = ''{"token":"X","expiresAt":1700000060000}''
          then Some (JObj [(''token'', JStr ''X''), (''expiresAt'', JNum 1700000060000)])
        else None),
      JSON_stringify = (\<lambda>v.
        if v = JObj [(''token'', JStr ''T''), (''expiresAt'', JNum 1700003302000)]
          then ''{"token":"T","expiresAt":1700003302000}''
        else if v = JObj [(''token'', JStr ''Y''), (''expiresAt'', JNum 1700003301000)]
          then ''{"token":"Y","expiresAt":1700003301000}''
        else []),
      base64url_decode = (\<lambda>s.
        if s = ''eyJleHAiOjB9'' then ''{"exp":0}''
        else if s = ''eyJleHAiOjE3MDAwMDM2MDB9'' then ''{"exp":1700003600}''
        else if s = ''eyJzdWIiOiJ1In0'' then ''{"sub":"u"}''
        else if s = ''bnVsbA'' then ''null''
        else if s = ''bm9uZQ'' then ''none''
        else []),
      coerce_number = (\<lambda>v. NaN)\<rparr>\<close>

section \<open>Facts about the built-ins and the clock\<close>

lemma or_undefined_simps [simp]:
  "or_undefined None = None"
  "or_undefined (Some []) = None"
  "t \<noteq> [] \<Longrightarrow> or_undefined (Some t) = Some t"
  by (simp_all add: or_undefined_def nonempty_def)

lemma or_undefined_Some: "or_undefined s = Some t \<longleftrightarrow> s = Some t \<and> t \<noteq> []"
  by (auto simp: or_undefined_def nonempty_def split: option.splits)

lemma now_log [simp]: "now (log e w) = now w"
  by (simp add: log_def)

lemma now_sleep [simp]: "now (sleep ms w) = now w + ms"
  by (simp add: sleep_def)

lemma parseInt_examples:
  "parseInt ''1700000000000'' = Num 1700000000000"
  "parseInt ''1699999900000'' = Num 1699999900000"
  "parseInt ''locked'' = NaN"
  "parseInt [] = NaN"
  by (simp_all add: parseInt_def is_space_def is_digit_def digits_value_def digit_val_def)



section \<open>What the lock and the extractor leave unchanged\<close>

lemma lock_event_quiet: "lock_event e \<Longrightarrow> quiet e"
  by (cases e) simp_all

lemma extends_refl [simp]: "extends P w w"
  by (simp add: extends_def)

lemma extends_trans: "extends P w w' \<Longrightarrow> extends P w' w'' \<Longrightarrow> extends P w w''"
  by (auto simp: extends_def)

lemma extends_quiet: "extends lock_event w w' \<Longrightarrow> extends quiet w w'"
  by (auto simp: extends_def list_all_iff lock_event_quiet)

lemma extends_log: "P e \<Longrightarrow> extends P w (log e w)"
  by (simp add: extends_def log_def)

lemma extends_sleep: "0 \<le> ms \<Longrightarrow> P (Sleep ms) \<Longrightarrow> extends P w (sleep ms w)"
  by (simp add: extends_def sleep_def log_def)

lemma extends_create_lock: "create_lock w = Inr w' \<Longrightarrow> extends P w w'"
  by (auto simp: create_lock_def extends_def split: option.splits if_splits)

lemma extends_unlink_lock: "unlink_lock w = Inr w' \<Longrightarrow> extends P w w'"
  by (auto simp: unlink_lock_def extends_def split: option.splits if_splits)

lemma extends_check_marker: "check_marker w = Some w' \<Longrightarrow> extends lock_event w w'"
  by (auto simp: check_marker_def unlink_lock_def extends_def log_def
           split: option.splits if_splits sum.splits)

lemma extends_iteration: "extends lock_event w (snd (acquireLock_iteration w))"
proof -
  have r: "extends lock_event w (log LockRead w)"
    by (simp add: extends_log)
  show ?thesis
  proof (cases "check_marker (log LockRead w)")
    case None
    then show ?thesis
      using extends_trans [OF r extends_sleep [of 500 lock_event "log LockRead w"]]
      by (simp add: acquireLock_iteration_def)
  next
    case (Some w2)
    then have w2: "extends lock_event w w2"
      using extends_trans [OF r extends_check_marker] by blast
    have sl: "extends lock_event w (sleep (retry_delay e) w2)" for e
      using extends_trans [OF w2 extends_sleep [of "retry_delay e" lock_event w2]]
      by (simp add: retry_delay_def)
    show ?thesis
    proof (cases "mkdir w2")
      case (Inl e)
      with Some sl show ?thesis
        by (simp add: acquireLock_iteration_def)
    next
      case (Inr u)
      show ?thesis
      proof (cases "create_lock w2")
        case (Inl e)
        with Some Inr sl show ?thesis
          by (simp add: acquireLock_iteration_def)
      next
        case cr: (Inr w3)
        have "extends lock_event w (log LockCreate w3)"
          using extends_trans [OF w2 extends_trans [OF extends_create_lock [OF cr]
                extends_log [of lock_event LockCreate w3]]]
          by simp
        with Some Inr cr show ?thesis
          by (simp add: acquireLock_iteration_def)
      qed
    qed
  qed
qed

lemma extends_loop: "extends lock_event w (snd (acquireLock_loop startTime timeout w))"
proof (induction startTime timeout w rule: acquireLock_loop.induct)
  case (1 startTime timeout w)
  show ?case
  proof (cases "now w - startTime < timeout")
    case False
    then show ?thesis by (simp add: acquireLock_loop.simps)
  next
    case True
    note step = extends_iteration [of w]
    show ?thesis
    proof (cases "fst (acquireLock_iteration w)")
      case None
      with True 1 [OF True refl None] step show ?thesis
        by (subst acquireLock_loop.simps) (auto simp: Let_def intro: extends_trans)
    next
      case (Some h)
      with True step show ?thesis
        by (subst acquireLock_loop.simps) (simp add: Let_def)
    qed
  qed
qed

lemma extends_acquireLock: "extends lock_event w (snd (acquireLock timeout w))"
  by (simp add: acquireLock_def extends_loop)

lemma extends_release: "extends quiet w (release w)"
  using extends_trans [OF extends_log [of quiet LockRelease w]
      extends_unlink_lock [of "log LockRelease w"]]
  by (auto simp: release_def extends_log split: sum.splits)

lemma extends_browser:
  "0 \<le> d \<Longrightarrow> extends quiet w ((log (Browser headless timeout) w)\<lparr>now := now w + d\<rparr>)"
  by (simp add: extends_def log_def)

lemma extends_tryExtractToken: "extends quiet w (snd (tryExtractToken ev headless timeout w))"
proof -
  obtain l w1 where a: "acquireLock (if headless then 5000 else 30000) w = (l, w1)"
    by (cases "acquireLock (if headless then 5000 else 30000) w")
  then have w1: "extends quiet w w1"
    using extends_quiet [OF extends_acquireLock [of w "if headless then 5000 else 30000"]] by simp
  obtain s elapsed where c: "chromium ev headless timeout (now w1) = (s, elapsed)"
    by (cases "chromium ev headless timeout (now w1)")
  have w2: "extends quiet w
      (release ((log (Browser headless timeout) w1)\<lparr>now := now w1 + int elapsed\<rparr>))"
    using extends_trans [OF w1 extends_trans [OF extends_browser extends_release]] by simp
  have w1r: "extends quiet w (release w1)"
    using extends_trans [OF w1 extends_release] .
  show ?thesis
    using a c w1 w2 w1r
    by (auto simp: tryExtractToken_def Let_def split: option.splits sum.splits session.splits)
qed

lemma extends_extractTokenViaPlaywright:
  "extends quiet w (snd (extractTokenViaPlaywright ev headless timeout w))"
proof -
  obtain r w1 where a: "tryExtractToken ev headless timeout w = (r, w1)"
    by (cases "tryExtractToken ev headless timeout w")
  then have w1: "extends quiet w w1"
    using extends_tryExtractToken [of w ev headless timeout] by simp
  have "extends quiet w (snd (tryExtractToken ev False 60000 w1))"
    using extends_trans [OF w1 extends_tryExtractToken] .
  with a w1 show ?thesis
    by (simp add: extractTokenViaPlaywright_def)
qed

section \<open>Facts about one turn of \<open>acquireLock\<close> and about waiting\<close>

lemma iteration_held:
  "lock_file w = Some s \<Longrightarrow> \<not> stale (now w) s \<Longrightarrow>
   acquireLock_iteration w = (None, sleep 500 (log LockRead w))"
  by (simp add: acquireLock_iteration_def check_marker_def log_def)


lemma iteration_absent:
  "lock_file w = None \<Longrightarrow> disk_ok w \<Longrightarrow>
   acquireLock_iteration w =
     (Some LockHandle, log LockCreate ((log LockRead w)\<lparr>lock_file := Some (toString (now w))\<rparr>))"
  by (simp add: acquireLock_iteration_def check_marker_def log_def mkdir_def create_lock_def)



lemma polls_fields [simp]:
  "lock_file (polls k w) = lock_file w"
  "cache_file (polls k w) = cache_file w"
  "disk_ok (polls k w) = disk_ok w"
  "cache_writable (polls k w) = cache_writable w"
  "now (polls k w) = now w + 500 * int k"
  by (induction k arbitrary: w; simp add: sleep_def log_def)+

lemma events_polls:
  "events (polls k w) = events w @ concat (replicate k [LockRead, Sleep 500])"
  by (induction k arbitrary: w) (simp_all add: sleep_def log_def)

lemma polls_add: "polls a (polls b w) = polls (b + a) w"
  by (induction b arbitrary: w) simp_all

lemma loop_held:
  "lock_file w = Some s \<Longrightarrow> (\<forall>t. now w \<le> t \<and> t - startTime < timeout \<longrightarrow> \<not> stale t s) \<Longrightarrow>
   \<exists>k. acquireLock_loop startTime timeout w = (None, polls k w)
       \<and> timeout \<le> now (polls k w) - startTime
       \<and> (k = 0 \<or> now (polls k w) - startTime < timeout + 500)"
proof (induction startTime timeout w rule: acquireLock_loop.induct)
  case (1 startTime timeout w)
  show ?case
  proof (cases "now w - startTime < timeout")
    case False
    then have "acquireLock_loop startTime timeout w = (None, polls 0 w)"
      by (simp add: acquireLock_loop.simps)
    with False show ?thesis
      by (intro exI [of _ 0]) simp
  next
    case True
    let ?w' = "sleep 500 (log LockRead w)"
    from True 1(3) have ns: "\<not> stale (now w) s" by simp
    have it: "acquireLock_iteration w = (None, ?w')"
      using iteration_held [OF 1(2) ns] .
    have lf: "lock_file ?w' = Some s"
      using 1(2) by (simp add: sleep_def log_def)
    have fresh: "\<forall>t. now ?w' \<le> t \<and> t - startTime < timeout \<longrightarrow> \<not> stale t s"
      using 1(3) by simp
    from 1(1) [OF True refl, of ] it lf fresh
    obtain k where k: "acquireLock_loop startTime timeout ?w' = (None, polls k ?w')"
        "timeout \<le> now (polls k ?w') - startTime"
        "k = 0 \<or> now (polls k ?w') - startTime < timeout + 500"
      by auto
    have "acquireLock_loop startTime timeout w = (None, polls (Suc k) w)"
      using True it k(1) by (subst acquireLock_loop.simps) (simp add: Let_def)
    moreover have "timeout \<le> now (polls (Suc k) w) - startTime"
      using k(2) by simp
    moreover have "now (polls (Suc k) w) - startTime < timeout + 500"
      using k(3) True by auto
    ultimately show ?thesis
      by (intro exI [of _ "Suc k"]) simp
  qed
qed



lemma stale_NaN: "parseInt s = NaN \<Longrightarrow> \<not> stale t s"
  by (simp add: stale_def)

lemma stale_Num: "parseInt s = Num t0 \<Longrightarrow> stale t s = (t - t0 > LOCK_TIMEOUT)"
  by (simp add: stale_def)

lemma stale_examples:
  "stale 1700000000000 ''1699999900000''"
  "\<not> stale t ''1700000000000'' \<longleftrightarrow> t \<le> 1700000060000"
  by (auto simp: stale_Num [OF parseInt_examples(1)] stale_Num [OF parseInt_examples(2)]
        LOCK_TIMEOUT_def)

lemma held_world_polls:
  "0 < timeout \<Longrightarrow> timeout \<le> 35000 \<Longrightarrow> k \<le> 50 \<Longrightarrow>
   \<exists>j. acquireLock timeout (polls k held_world) = (None, polls (k + j) held_world)
       \<and> timeout \<le> 500 * int j \<and> 500 * int j < timeout + 500"
proof -
  assume t: "0 < timeout" "timeout \<le> 35000" and k: "k \<le> 50"
  let ?w = "polls k held_world"
  have lf: "lock_file ?w = Some ''1700000000000''"
    by (simp add: held_world_def example_world_def)
  have nw: "now ?w = 1700000000000 + 500 * int k"
    by (simp add: held_world_def example_world_def)
  have fresh: "\<forall>t. now ?w \<le> t \<and> t - now ?w < timeout \<longrightarrow> \<not> stale t ''1700000000000''"
    using t k nw by (auto simp: stale_examples(2))
  from loop_held [OF lf fresh]
  obtain j where j: "acquireLock_loop (now ?w) timeout ?w = (None, polls j ?w)"
      "timeout \<le> now (polls j ?w) - now ?w"
      "j = 0 \<or> now (polls j ?w) - now ?w < timeout + 500"
    by auto
  from j(2) t have "j \<noteq> 0" by auto
  with j show ?thesis
    by (intro exI [of _ j]) (auto simp: acquireLock_def polls_add)
qed

lemma held_world_5000: "acquireLock 5000 held_world = (None, polls 10 held_world)"
proof -
  from held_world_polls [of 5000 0]
  obtain j where j: "acquireLock 5000 held_world = (None, polls j held_world)"
      "5000 \<le> 500 * int j" "500 * int j < 5500"
    by auto
  then have "j = 10" by linarith
  with j(1) show ?thesis by simp
qed

lemma held_world_30000:
  "acquireLock 30000 (polls 10 held_world) = (None, polls 70 held_world)"
proof -
  from held_world_polls [of 30000 10]
  obtain j where j: "acquireLock 30000 (polls 10 held_world) = (None, polls (10 + j) held_world)"
      "30000 \<le> 500 * int j" "500 * int j < 30500"
    by auto
  then have "j = 60" by linarith
  with j(1) show ?thesis by simp
qed

lemma acquireLock_free:
  "lock_file w = None \<Longrightarrow> disk_ok w \<Longrightarrow> 0 < timeout \<Longrightarrow>
   acquireLock timeout w =
     (Some LockHandle, log LockCreate ((log LockRead w)\<lparr>lock_file := Some (toString (now w))\<rparr>))"
  using iteration_absent [of w]
  by (simp add: acquireLock_def) (subst acquireLock_loop.simps, simp add: Let_def)

lemma tryExtractToken_free:
  "lock_file w = None \<Longrightarrow> disk_ok w \<Longrightarrow>
   chromium ev headless timeout (now w) = (Finished (Some tok) g, elapsed) \<Longrightarrow> tok \<noteq> [] \<Longrightarrow>
   tryExtractToken ev headless timeout w =
     (\<lparr>pw_success = True, pw_token = Some tok, pw_graphToken = or_undefined g, pw_error = None\<rparr>,
      w\<lparr>now := now w + int elapsed,
        events := events w @ [LockRead, LockCreate, Browser headless timeout, LockRelease]\<rparr>)"
  by (simp add: tryExtractToken_def acquireLock_free log_def mkdir_def release_def
        unlink_lock_def nonempty_def)

lemma tryExtractToken_contention:
  "fst (acquireLock (if headless then 5000 else 30000) w) = None \<Longrightarrow>
   tryExtractToken ev headless timeout w =
     (pw_failure ''Another browser session is in progress, please wait'',
      snd (acquireLock (if headless then 5000 else 30000) w))"
  by (cases "acquireLock (if headless then 5000 else 30000) w")
     (simp add: tryExtractToken_def)

lemma extractTokenViaPlaywright_free:
  "lock_file w = None \<Longrightarrow> disk_ok w \<Longrightarrow>
   chromium ev headless timeout (now w) = (Finished (Some tok) g, elapsed) \<Longrightarrow> tok \<noteq> [] \<Longrightarrow>
   extractTokenViaPlaywright ev headless timeout w =
     (\<lparr>pw_success = True, pw_token = Some tok, pw_graphToken = or_undefined g, pw_error = None\<rparr>,
      w\<lparr>now := now w + int elapsed,
        events := events w @ [LockRead, LockCreate, Browser headless timeout, LockRelease]\<rparr>)"
  by (simp add: extractTokenViaPlaywright_def tryExtractToken_free)

section \<open>Facts about the expiry and the cache\<close>


lemma getJwtExpiration_opaque:
  "getJwtExpiration rt ''T'' = None" "getJwtExpiration rt ''Y'' = None"
  by (simp_all add: getJwtExpiration_def getJwtExpiration_try_def)

lemma setCachedToken_eq:
  "setCachedToken rt tok g w =
     Inr (if disk_ok w \<and> cache_writable w
          then log (CacheWrite tok)
                 (w\<lparr>cache_file :=
                      Some (JSON_stringify rt (cached_record tok g (expiresAt_of rt tok (now w))))\<rparr>)
          else w)"
  by (simp add: setCachedToken_def setCachedToken_try_def mkdir_def writeFile_cache_def Let_def)

lemma getCachedToken_absent: "cache_file w = None \<Longrightarrow> getCachedToken rt w = None"
  by (simp add: getCachedToken_def getCachedToken_try_def)

lemma getCachedToken_fail_soft:
  "(cache_file w = None \<longrightarrow> getCachedToken rt w = None)
   \<and> (cache_file w = Some data \<and> JSON_parse rt data = None \<longrightarrow> getCachedToken rt w = None)
   \<and> (cache_file w = Some data \<and> JSON_parse rt data = Some JNull \<longrightarrow> getCachedToken rt w = None)
   \<and> (cache_file w = Some data \<and> JSON_parse rt data = Some (JObj kvs)
        \<and> map_of kvs ''expiresAt'' = Some (JNum e)
      \<longrightarrow> getCachedToken rt w =
            (if e \<le> now w then None else Some (JObj kvs, e - now w < 5 * 60 * 1000)))"
  by (simp add: getCachedToken_def getCachedToken_try_def REFRESH_THRESHOLD_def)

lemma getCachedToken_no_expiresAt:
  "cache_file w = Some data \<Longrightarrow> JSON_parse rt data = Some (JObj kvs) \<Longrightarrow>
   map_of kvs ''expiresAt'' = None \<Longrightarrow> getCachedToken rt w = Some (JObj kvs, False)"
  by (simp add: getCachedToken_def getCachedToken_try_def)

lemma getCachedToken_not_null:
  "getCachedToken rt w = Some (cached, needsRefresh) \<Longrightarrow>
   get_prop cached k = Inr (field cached k)"
  by (cases cached)
     (auto simp: getCachedToken_def getCachedToken_try_def Let_def
        split: option.splits sum.splits if_splits)


section \<open>The trace of \<open>resolveAuth\<close> and of a keepalive turn\<close>

lemma consulted_quiet [simp]: "list_all quiet q \<Longrightarrow> consulted (q @ es) = consulted es"
  by (induction q rule: consulted.induct) simp_all

lemma after_success_quiet [simp]:
  "list_all quiet q \<Longrightarrow> after_success (q @ es) = after_success es"
  by (induction q rule: after_success.induct) simp_all

lemma validated_writes_quiet [simp]:
  "list_all quiet q \<Longrightarrow> validated_writes seen (q @ es) = validated_writes seen es"
  by (induction seen q rule: validated_writes.induct) simp_all

lemma quiet_checks [simp]:
  "list_all quiet q \<Longrightarrow> consulted q = []"
  "list_all quiet q \<Longrightarrow> after_success q = None"
  "list_all quiet q \<Longrightarrow> validated_writes seen q"
  using consulted_quiet [of q "[]"] after_success_quiet [of q "[]"]
    validated_writes_quiet [of q seen "[]"]
  by simp_all

lemma validateSession_world:
  "validateSession ev v w = (b, w') \<Longrightarrow> w' = log (Validate v b) w"
  by (auto simp: validateSession_def Let_def)

lemma resolve_interactive_trace:
  assumes "resolve_interactive ev rt opts w = Inr (r, sp, w')"
  shows "\<not> sp \<and> (\<exists>xs. events w' = events w @ xs \<and> interactive_trace opts r xs)"
proof (cases "interactive opts")
  case False
  with assms show ?thesis
    by (auto simp: resolve_interactive_def interactive_trace_def auth_failure_def)
next
  case True
  let ?w = "log (Consult InteractiveExtraction) w"
  obtain pr w1 where x: "extractTokenViaPlaywright ev True 15000 ?w = (pr, w1)"
    by (cases "extractTokenViaPlaywright ev True 15000 ?w")
  from extends_extractTokenViaPlaywright [of ?w ev True 15000] x
  obtain q where q: "events w1 = events w @ Consult InteractiveExtraction # q" "list_all quiet q"
    by (auto simp: extends_def log_def)
  show ?thesis
  proof (cases "success_and_token pr")
    case None
    with assms True x q show ?thesis
      by (auto simp: resolve_interactive_def interactive_trace_def auth_failure_def)
  next
    case (Some tok)
    obtain b w2 where v: "validateSession ev (Some (JStr tok)) w1 = (b, w2)"
      by (cases "validateSession ev (Some (JStr tok)) w1")
    then have w2: "events w2 = events w @ Consult InteractiveExtraction # q @ [Validate (Some (JStr tok)) b]"
      using q by (auto dest!: validateSession_world simp: log_def)
    show ?thesis
    proof (cases b)
      case False
      with assms True x Some v have "r = auth_failure ''Extracted token is invalid or expired''"
          "\<not> sp" "w' = w2"
        by (simp_all add: resolve_interactive_def)
      with w2 q(2) True False show ?thesis
        by (auto simp: interactive_trace_def auth_failure_def)
    next
      case valid: True
      let ?w3 = "if disk_ok w2 \<and> cache_writable w2
          then log (CacheWrite tok)
                 (w2\<lparr>cache_file :=
                      Some (JSON_stringify rt (cached_record tok (pw_graphToken pr)
                              (expiresAt_of rt tok (now w2))))\<rparr>)
          else w2"
      from assms True x Some v valid have r: "success r" "token r = Some (JStr tok)"
          "\<not> sp" "w' = ?w3"
        by (auto simp: resolve_interactive_def setCachedToken_eq)
      have "events ?w3 = events w2 \<or> events ?w3 = events w2 @ [CacheWrite tok]"
        by (simp add: log_def)
      with w2 q(2) True valid r show ?thesis
        unfolding interactive_trace_def by auto
    qed
  qed
qed

lemma resolve_cached_trace:
  assumes "resolve_cached ev rt opts w = Inr (r, sp, w')"
  shows "\<exists>xs. events w' = events w @ xs \<and> cached_trace opts r sp xs"
proof -
  let ?w0 = "log (Consult TokenCache) w"
  show ?thesis
  proof (cases "getCachedToken rt ?w0")
    case None
    with assms have "resolve_interactive ev rt opts ?w0 = Inr (r, sp, w')"
      by (simp add: resolve_cached_def)
    from resolve_interactive_trace [OF this] show ?thesis
      by (auto simp: cached_trace_def log_def)
  next
    case (Some hit)
    obtain cached needsRefresh where hit: "hit = (cached, needsRefresh)"
      by (cases hit)
    obtain b w1 where v: "validateSession ev (field cached ''token'') ?w0 = (b, w1)"
      by (cases "validateSession ev (field cached ''token'') ?w0")
    then have w1: "events w1 = events w @ [Consult TokenCache, Validate (field cached ''token'') b]"
      by (auto dest!: validateSession_world simp: log_def)
    show ?thesis
    proof (cases b)
      case False
      with assms Some hit v have "resolve_interactive ev rt opts w1 = Inr (r, sp, w')"
        by (simp add: resolve_cached_def)
      from resolve_interactive_trace [OF this] w1 False show ?thesis
        by (auto simp: cached_trace_def)
    next
      case True
      with assms Some hit v have r: "success r" "token r = field cached ''token''"
          "sp = (needsRefresh \<and> interactive opts)"
          "w' = (if sp then log (Consult InteractiveExtraction) w1 else w1)"
        by (auto simp: resolve_cached_def Let_def)
      with w1 True show ?thesis
        by (auto simp: cached_trace_def log_def)
    qed
  qed
qed

lemma resolveAuth_trace:
  assumes "resolveAuth ev rt opts w = Inr (r, sp, w')"
  shows "\<exists>xs. events w' = events w @ xs \<and> resolve_trace ev opts r sp xs"
proof (cases "or_undefined (cliToken opts)")
  case (Some t)
  obtain b w1 where v: "validateSession ev (Some (JStr t)) (log (Consult ExplicitToken) w) = (b, w1)"
    by (cases "validateSession ev (Some (JStr t)) (log (Consult ExplicitToken) w)")
  then have w1: "events w1 = events w @ [Consult ExplicitToken, Validate (Some (JStr t)) b]"
    by (auto dest!: validateSession_world simp: log_def)
  from assms Some v have "w' = w1" "\<not> sp" "success r = b" "b \<longrightarrow> token r = Some (JStr t)"
    by (auto simp: resolveAuth_def Let_def auth_failure_def split: if_splits)
  with w1 Some show ?thesis
    by (simp add: resolve_trace_def)
next
  case None
  let ?w1 = "log (Consult EnvironmentOverride) (log (Consult ExplicitToken) w)"
  show ?thesis
  proof (cases "or_undefined (CLIPPY_TOKEN ev)")
    case (Some t)
    obtain b w2 where v: "validateSession ev (Some (JStr t)) ?w1 = (b, w2)"
      by (cases "validateSession ev (Some (JStr t)) ?w1")
    then have w2: "events w2 = events w @ [Consult ExplicitToken, Consult EnvironmentOverride,
          Validate (Some (JStr t)) b]"
      by (auto dest!: validateSession_world simp: log_def)
    from assms None Some v have "w' = w2" "\<not> sp" "success r = b" "b \<longrightarrow> token r = Some (JStr t)"
      by (auto simp: resolveAuth_def Let_def auth_failure_def split: if_splits)
    with w2 None Some show ?thesis
      by (simp add: resolve_trace_def)
  next
    case env: None
    with assms None have "resolve_cached ev rt opts ?w1 = Inr (r, sp, w')"
      by (simp add: resolveAuth_def Let_def)
    from resolve_cached_trace [OF this] None env show ?thesis
      by (auto simp: resolve_trace_def log_def)
  qed
qed

lemma resolve_interactive_returns: "\<exists>x. resolve_interactive ev rt opts w = Inr x"
  by (auto simp: resolve_interactive_def setCachedToken_eq split: prod.splits option.splits)

lemma resolve_cached_returns: "\<exists>x. resolve_cached ev rt opts w = Inr x"
  using resolve_interactive_returns
  by (auto simp: resolve_cached_def Let_def split: prod.splits option.splits)

lemma resolveAuth_returns: "\<exists>x. resolveAuth ev rt opts w = Inr x"
  using resolve_cached_returns
  by (auto simp: resolveAuth_def Let_def split: prod.splits option.splits)

lemma interactive_trace_props:
  assumes "interactive_trace opts r ys"
  shows "consulted ys = (if interactive opts then [InteractiveExtraction] else [])"
    and "(case after_success ys of
            None \<Rightarrow> \<not> success r
          | Some (v, post) \<Rightarrow> success r \<and> token r = v \<and> consulted post = [])"
    and "validated_writes seen ys"
    and "success r \<longrightarrow> Validate (token r) True \<in> set ys"
  using assms by (auto simp: interactive_trace_def split: if_splits)

lemma cached_trace_props:
  assumes "cached_trace opts r sp ys"
  shows "prefix (consulted ys) [TokenCache, InteractiveExtraction]"
    and "(case after_success ys of
            None \<Rightarrow> \<not> success r \<and> \<not> sp
          | Some (v, post) \<Rightarrow> success r \<and> token r = v
              \<and> consulted post = (if sp then [InteractiveExtraction] else []))"
    and "validated_writes seen ys"
    and "success r \<longrightarrow> Validate (token r) True \<in> set ys"
    and "sp \<longrightarrow> interactive opts \<and> consulted ys = [TokenCache, InteractiveExtraction]"
    and "prefix [TokenCache] (consulted ys)"
proof -
  consider (hit) c where "ys = [Consult TokenCache, Validate c True]
                 @ (if sp then [Consult InteractiveExtraction] else [])"
        "success r" "token r = c" "sp \<longrightarrow> interactive opts"
    | (miss) zs where "\<not> sp" "interactive_trace opts r zs" "ys = Consult TokenCache # zs"
    | (invalid) zs c where "\<not> sp" "interactive_trace opts r zs"
        "ys = Consult TokenCache # Validate c False # zs"
    using assms unfolding cached_trace_def by blast
  then have "prefix (consulted ys) [TokenCache, InteractiveExtraction]
    \<and> (case after_success ys of
            None \<Rightarrow> \<not> success r \<and> \<not> sp
          | Some (v, post) \<Rightarrow> success r \<and> token r = v
              \<and> consulted post = (if sp then [InteractiveExtraction] else []))
    \<and> validated_writes seen ys
    \<and> (success r \<longrightarrow> Validate (token r) True \<in> set ys)
    \<and> (sp \<longrightarrow> interactive opts \<and> consulted ys = [TokenCache, InteractiveExtraction])
    \<and> prefix [TokenCache] (consulted ys)"
  proof cases
    case hit
    then show ?thesis by auto
  next
    case miss
    with interactive_trace_props(1,2,4) [OF miss(2)] interactive_trace_props(3) [OF miss(2), of seen]
    show ?thesis
      by (auto split: option.splits)
  next
    case invalid
    with interactive_trace_props(1,2,4) [OF invalid(2)]
      interactive_trace_props(3) [OF invalid(2), of seen]
    show ?thesis
      by (auto split: option.splits)
  qed
  then show "prefix (consulted ys) [TokenCache, InteractiveExtraction]"
    and "(case after_success ys of
            None \<Rightarrow> \<not> success r \<and> \<not> sp
          | Some (v, post) \<Rightarrow> success r \<and> token r = v
              \<and> consulted post = (if sp then [InteractiveExtraction] else []))"
    and "validated_writes seen ys"
    and "success r \<longrightarrow> Validate (token r) True \<in> set ys"
    and "sp \<longrightarrow> interactive opts \<and> consulted ys = [TokenCache, InteractiveExtraction]"
    and "prefix [TokenCache] (consulted ys)"
    by blast+
qed

lemma resolve_trace_props:
  assumes "resolve_trace ev opts r sp xs"
  shows "resolve_props ev opts r sp xs"
proof (cases "or_undefined (cliToken opts)")
  case (Some t)
  with assms show ?thesis
    by (auto simp: resolve_trace_def resolve_props_def source_order_def)
next
  case None
  show ?thesis
  proof (cases "or_undefined (CLIPPY_TOKEN ev)")
    case (Some t)
    with assms None show ?thesis
      by (auto simp: resolve_trace_def resolve_props_def source_order_def)
  next
    case env: None
    with assms None obtain ys where ys: "xs = Consult ExplicitToken # Consult EnvironmentOverride # ys"
        "cached_trace opts r sp ys"
      by (auto simp: resolve_trace_def)
    from cached_trace_props(1,2,4,5,6) [OF ys(2)] cached_trace_props(3) [OF ys(2), of "[]"]
      ys(1) None env
    show ?thesis
      by (auto simp: resolve_props_def source_order_def split: option.splits)
  qed
qed

lemma keepalive_turn_trace:
  "\<exists>w' ws. keepalive_turn ev rt m w = Inr w'
      \<and> events w' = events w @ Sleep 2000 # ws @ [Sleep (m * 60 * 1000)]
      \<and> (ws = [] \<or> (\<exists>tok. ws = [CacheWrite tok]))"
  by (auto simp: keepalive_turn_def Let_def setCachedToken_eq sleep_def log_def
        split: prod.splits option.splits)

section \<open>Runs of the examples\<close>

lemma resolve_interactive_unwritable:
  assumes "interactive opts" "lock_file w = None" "disk_ok w" "\<not> cache_writable w"
    and "chromium ev True 15000 (now w) = (Finished (Some tok) g, elapsed)" "tok \<noteq> []"
    and "fetch_ok ev (now w + int elapsed) (Some (JStr tok)) = Some True"
  shows "resolve_interactive ev rt opts w =
            Inr (\<lparr>success = True, token = Some (JStr tok), graphToken = js_string (or_undefined g),
                  error = None\<rparr>,
                 False,
                 w\<lparr>now := now w + int elapsed,
                   events := events w @
                     [Consult InteractiveExtraction, LockRead, LockCreate, Browser True 15000,
                      LockRelease, Validate (Some (JStr tok)) True]\<rparr>)"
proof -
  let ?w = "log (Consult InteractiveExtraction) w"
  let ?w1 = "?w\<lparr>now := now ?w + int elapsed,
          events := events ?w @ [LockRead, LockCreate, Browser True 15000, LockRelease]\<rparr>"
  have x: "extractTokenViaPlaywright ev True 15000 ?w =
       (\<lparr>pw_success = True, pw_token = Some tok, pw_graphToken = or_undefined g, pw_error = None\<rparr>,
        ?w1)"
    using assms by (intro extractTokenViaPlaywright_free) (simp_all add: log_def)
  have v: "validateSession ev (Some (JStr tok)) ?w1 = (True, log (Validate (Some (JStr tok)) True) ?w1)"
    using assms by (simp add: validateSession_def)
  have c: "setCachedToken rt tok (or_undefined g) (log (Validate (Some (JStr tok)) True) ?w1)
      = Inr (log (Validate (Some (JStr tok)) True) ?w1)"
    using assms by (simp add: setCachedToken_eq log_def)
  have "resolve_interactive ev rt opts w =
      Inr (\<lparr>success = True, token = Some (JStr tok), graphToken = js_string (or_undefined g),
            error = None\<rparr>, False, log (Validate (Some (JStr tok)) True) ?w1)"
    using assms(1,6)
    by (simp add: resolve_interactive_def x v c success_and_token_def del: now_log)
  then show ?thesis
    by (simp add: log_def)
qed



lemma fresh_run:
  \<open>resolveAuth example_env example_runtime \<lparr>cliToken = None, interactive = True\<rparr> example_world
     = Inr (\<lparr>success = True, token = Some (JStr ''Y''), graphToken = None, error = None\<rparr>,
            False,
            example_world\<lparr>now := 1700000001000,
              cache_file := Some ''{"token":"Y","expiresAt":1700003301000}'',
              events :=
              [Consult ExplicitToken, Consult EnvironmentOverride, Consult TokenCache,
               Consult InteractiveExtraction, LockRead, LockCreate, Browser True 15000,
               LockRelease, Validate (Some (JStr ''Y'')) True, CacheWrite ''Y'']\<rparr>)\<close>
proof -
  let ?w2 = "log (Consult TokenCache)
      (log (Consult EnvironmentOverride) (log (Consult ExplicitToken) example_world))"
  let ?w3 = "log (Consult InteractiveExtraction) ?w2"
  let ?w4 = "?w3\<lparr>now := now ?w3 + int 1000,
        events := events ?w3 @ [LockRead, LockCreate, Browser True 15000, LockRelease]\<rparr>"
  have g: "getCachedToken example_runtime ?w2 = None"
    by (intro getCachedToken_absent) (simp add: log_def example_world_def)
  have x: "extractTokenViaPlaywright example_env True 15000 ?w3 =
     (\<lparr>pw_success = True, pw_token = Some ''Y'', pw_graphToken = or_undefined None, pw_error = None\<rparr>,
      ?w4)"
    by (intro extractTokenViaPlaywright_free)
       (simp_all add: example_world_def example_env_def log_def)
  have v: "validateSession example_env (Some (JStr ''Y'')) ?w4
      = (True, log (Validate (Some (JStr ''Y'')) True) ?w4)"
    by (simp add: validateSession_def example_env_def)
  have i: "resolve_interactive example_env example_runtime \<lparr>cliToken = None, interactive = True\<rparr> ?w2
      = Inr (\<lparr>success = True, token = Some (JStr ''Y''), graphToken = None, error = None\<rparr>,
            False,
            log (CacheWrite ''Y'')
              ((log (Validate (Some (JStr ''Y'')) True) ?w4)
                 \<lparr>cache_file := Some (JSON_stringify example_runtime
                     (cached_record ''Y'' None 1700003301000))\<rparr>))"
    by (simp add: resolve_interactive_def x v success_and_token_def js_string_def del: now_log)
       (simp add: setCachedToken_eq expiresAt_of_def getJwtExpiration_opaque log_def
          example_world_def validateSession_def example_env_def js_string_def)
  have "resolveAuth example_env example_runtime \<lparr>cliToken = None, interactive = True\<rparr> example_world
      = resolve_interactive example_env example_runtime \<lparr>cliToken = None, interactive = True\<rparr> ?w2"
    using g by (simp add: resolveAuth_def resolve_cached_def Let_def example_env_def)
  with i show ?thesis
    by (simp add: log_def example_world_def cached_record_def example_runtime_def)
qed

section \<open>The claims\<close>

text \<open>
  C1 (as amended). \<open>resolveAuth\<close> always returns. When it returns success,
  \<open>validateSession\<close> was called on the credential it returns during that call and
  answered true; and every credential that \<open>resolveAuth\<close> writes to the Token Cache before
  it returns was validated, with the answer true, earlier in the same call. A turn of the
  Keepalive Loop sleeps, writes the credential it captured last (if any) to the Token Cache
  and sleeps again: it calls no validation.
\<close>

theorem accepted_credentials_validated:
  "(\<exists>r sp w' xs. resolveAuth ev rt opts w = Inr (r, sp, w')
       \<and> events w' = events w @ xs
       \<and> validated_writes [] xs
       \<and> (success r \<longrightarrow> Validate (token r) True \<in> set xs))
   \<and> (\<exists>w' ws. keepalive_turn ev rt m w = Inr w'
       \<and> events w' = events w @ Sleep 2000 # ws @ [Sleep (m * 60 * 1000)]
       \<and> (ws = [] \<or> (\<exists>tok. ws = [CacheWrite tok])))"
proof -
  obtain r sp w' where a: "resolveAuth ev rt opts w = Inr (r, sp, w')"
    using resolveAuth_returns [of ev rt opts w] by auto
  from resolveAuth_trace [OF a]
  obtain xs where xs: "events w' = events w @ xs" "resolve_trace ev opts r sp xs"
    by blast
  from resolve_trace_props [OF xs(2)]
  have "validated_writes [] xs" "success r \<longrightarrow> Validate (token r) True \<in> set xs"
    by (simp_all add: resolve_props_def)
  with a xs(1) keepalive_turn_trace [of ev rt m w] show ?thesis
    by blast
qed

theorem accepted_credentials_validated_witness:
  "\<exists>r sp w' xs.
      resolveAuth example_env example_runtime \<lparr>cliToken = None, interactive = True\<rparr> example_world
        = Inr (r, sp, w')
      \<and> events w' = events example_world @ xs
      \<and> success r \<and> validated_writes [] xs \<and> Validate (token r) True \<in> set xs
      \<and> CacheWrite ''Y'' \<in> set xs"
  using accepted_credentials_validated
      [of example_env example_runtime "\<lparr>cliToken = None, interactive = True\<rparr>" example_world]
    fresh_run
  by (auto simp: example_world_def)

text \<open>
  The claim C1 as stated fails for the Keepalive Loop: the turn below writes the captured
  token \<open>T\<close> to the cache file, and its trace holds no validation at all.
\<close>

theorem keepalive_writes_unvalidated:
  \<open>keepalive_turn example_env example_runtime 10 example_world =
     Inr (example_world\<lparr>now := 1700000602000,
            cache_file := Some ''{"token":"T","expiresAt":1700003302000}'',
            events := [Sleep 2000, CacheWrite ''T'', Sleep 600000]\<rparr>)
   \<and> \<not> validated_writes [] [Sleep 2000, CacheWrite ''T'', Sleep 600000]\<close>
  by (simp add: keepalive_turn_def Let_def setCachedToken_eq sleep_def log_def example_env_def
        example_world_def expiresAt_of_def getJwtExpiration_opaque cached_record_def
        example_runtime_def)




text \<open>
  C4 (as amended). When \<open>acquireLock\<close> returns \<open>null\<close>, \<open>tryExtractToken\<close> returns
  the failure \<open>Another browser session is in progress, please wait\<close>; it has done nothing
  but poll the lock (no browser was launched), and it does not try the lock again.
  \<open>extractTokenViaPlaywright\<close> returns that failure as it is when called with
  \<open>headless = false\<close>; called with \<open>headless = true\<close> it treats it as any other failed
  headless attempt and goes on to the attended attempt \<open>tryExtractToken(false, 60000)\<close>,
  which contends for the lock again.
\<close>

theorem lock_contention_result:
  "fst (acquireLock (if headless then 5000 else 30000) w) = None \<Longrightarrow>
   tryExtractToken ev headless timeout w =
     (pw_failure ''Another browser session is in progress, please wait'',
      snd (acquireLock (if headless then 5000 else 30000) w))
   \<and> (\<exists>xs. events (snd (tryExtractToken ev headless timeout w)) = events w @ xs
          \<and> list_all lock_event xs)
   \<and> extractTokenViaPlaywright ev headless timeout w =
       (if headless
        then tryExtractToken ev False 60000 (snd (tryExtractToken ev headless timeout w))
        else tryExtractToken ev headless timeout w)"
proof -
  assume a: "fst (acquireLock (if headless then 5000 else 30000) w) = None"
  note r = tryExtractToken_contention [OF a, of ev timeout]
  have "\<exists>xs. events (snd (acquireLock (if headless then 5000 else 30000) w)) = events w @ xs
          \<and> list_all lock_event xs"
    using extends_acquireLock [of w "if headless then 5000 else 30000"]
    by (simp add: extends_def)
  then have e: "\<exists>xs. events (snd (tryExtractToken ev headless timeout w)) = events w @ xs
          \<and> list_all lock_event xs"
    by (simp add: r)
  have x: "extractTokenViaPlaywright ev headless timeout w =
       (if headless
        then tryExtractToken ev False 60000 (snd (tryExtractToken ev headless timeout w))
        else tryExtractToken ev headless timeout w)"
    using r by (cases headless) (simp_all add: extractTokenViaPlaywright_def pw_failure_def)
  from r e x show ?thesis by blast
qed

theorem lock_contention_result_witness:
  "fst (acquireLock (if True then 5000 else 30000) held_world) = None
   \<and> tryExtractToken example_env True 15000 held_world =
     (pw_failure ''Another browser session is in progress, please wait'', polls 10 held_world)
   \<and> extractTokenViaPlaywright example_env True 15000 held_world =
       tryExtractToken example_env False 60000 (polls 10 held_world)"
  using lock_contention_result [of True held_world example_env 15000]
  by (simp add: held_world_5000)

text \<open>
  The claim C4 as stated fails: with the marker of another process in place,
  the headless attempt gives up after 10 polls (5 s) with the contention error, and the same
  invocation of \<open>extractTokenViaPlaywright\<close> then polls the lock 60 more times (30 s) in
  its attended attempt before it returns.
\<close>

theorem lock_contention_retried:
  "tryExtractToken example_env True 15000 held_world =
     (pw_failure ''Another browser session is in progress, please wait'', polls 10 held_world)
   \<and> extractTokenViaPlaywright example_env True 15000 held_world =
     (pw_failure ''Another browser session is in progress, please wait'', polls 70 held_world)
   \<and> now (polls 70 held_world) = now held_world + 5000 + 30000"
proof -
  have a: "tryExtractToken example_env True 15000 held_world =
     (pw_failure ''Another browser session is in progress, please wait'', polls 10 held_world)"
    using tryExtractToken_contention [of True held_world example_env 15000]
    by (simp add: held_world_5000)
  have b: "tryExtractToken example_env False 60000 (polls 10 held_world) =
     (pw_failure ''Another browser session is in progress, please wait'', polls 70 held_world)"
    using tryExtractToken_contention [of False "polls 10 held_world" example_env 60000]
    by (simp add: held_world_30000)
  show ?thesis
    using a b by (simp add: extractTokenViaPlaywright_def pw_failure_def)
qed






text \<open>
  C7, at the input where the code departs from it. The cache file holds the well-formed JSON
  text \<open>{"token":"X"}\<close>, which has no \<open>expiresAt\<close> and so is not of the shape of a
  \<open>CachedToken\<close>. \<open>cached.expiresAt\<close> is \<open>undefined\<close>, both comparisons with it are
  false, and \<open>getCachedToken\<close> returns the record as a cache hit with
  \<open>needsRefresh = false\<close> instead of \<open>null\<close>. (On a missing file, on a text that is not
  JSON, on \<open>null\<close> and on a numeric \<open>expiresAt\<close> that has passed it returns \<open>null\<close>:
  \<open>getCachedToken_fail_soft\<close>.)
\<close>

theorem getCachedToken_wrong_shape:
  \<open>getCachedToken example_runtime (example_world\<lparr>cache_file := Some ''{"token":"X"}''\<rparr>)
     = Some (JObj [(''token'', JStr ''X'')], False)\<close>
  by (simp add: getCachedToken_def getCachedToken_try_def example_runtime_def example_world_def)

text \<open>
  C8. When the caller supplies a non-empty token and \<open>validateSession\<close> does not accept
  it, \<open>resolveAuth\<close> returns the failure \<open>Provided token is invalid or expired\<close> at once:
  all it has done is consult the explicit token and validate it. The same holds for a
  non-empty \<open>CLIPPY_TOKEN\<close> that is not accepted, when no explicit token is given: the
  failure names the environment variable, and neither the cache nor the extractor was
  consulted.
\<close>

theorem invalid_token_terminal:
  "(cliToken opts = Some tok \<and> tok \<noteq> [] \<and> fetch_ok ev (now w) (Some (JStr tok)) \<noteq> Some True
      \<longrightarrow> resolveAuth ev rt opts w =
            Inr (auth_failure ''Provided token is invalid or expired'', False,
                 w\<lparr>events := events w @ [Consult ExplicitToken, Validate (Some (JStr tok)) False]\<rparr>))
   \<and> (or_undefined (cliToken opts) = None \<and> CLIPPY_TOKEN ev = Some tok \<and> tok \<noteq> []
        \<and> fetch_ok ev (now w) (Some (JStr tok)) \<noteq> Some True
      \<longrightarrow> resolveAuth ev rt opts w =
            Inr (auth_failure
                   ''CLIPPY_TOKEN environment variable contains invalid or expired token'',
                 False,
                 w\<lparr>events := events w @ [Consult ExplicitToken, Consult EnvironmentOverride,
                                         Validate (Some (JStr tok)) False]\<rparr>))"
  by (auto simp: resolveAuth_def validateSession_def or_undefined_def nonempty_def log_def Let_def
           split: option.splits)

theorem invalid_token_terminal_witness:
  \<open>resolveAuth example_env example_runtime \<lparr>cliToken = Some ''bad'', interactive = True\<rparr>
       (example_world\<lparr>cache_file := Some ''{"token":"X","expiresAt":1700000060000}''\<rparr>)
     = Inr (auth_failure ''Provided token is invalid or expired'', False,
            example_world\<lparr>cache_file := Some ''{"token":"X","expiresAt":1700000060000}'',
              events := [Consult ExplicitToken, Validate (Some (JStr ''bad'')) False]\<rparr>)
   \<and> resolveAuth (example_env\<lparr>CLIPPY_TOKEN := Some ''bad''\<rparr>) example_runtime
       \<lparr>cliToken = None, interactive = True\<rparr>
       (example_world\<lparr>cache_file := Some ''{"token":"X","expiresAt":1700000060000}''\<rparr>)
     = Inr (auth_failure ''CLIPPY_TOKEN environment variable contains invalid or expired token'',
            False,
            example_world\<lparr>cache_file := Some ''{"token":"X","expiresAt":1700000060000}'',
              events := [Consult ExplicitToken, Consult EnvironmentOverride,
                         Validate (Some (JStr ''bad'')) False]\<rparr>)\<close>
  using invalid_token_terminal
      [of "\<lparr>cliToken = Some ''bad'', interactive = True\<rparr>" "''bad''" example_env
          \<open>example_world\<lparr>cache_file := Some ''{"token":"X","expiresAt":1700000060000}''\<rparr>\<close>
          example_runtime]
    invalid_token_terminal
      [of "\<lparr>cliToken = None, interactive = True\<rparr>" "''bad''"
          "example_env\<lparr>CLIPPY_TOKEN := Some ''bad''\<rparr>"
          \<open>example_world\<lparr>cache_file := Some ''{"token":"X","expiresAt":1700000060000}''\<rparr>\<close>
          example_runtime]
  by (simp add: example_env_def example_world_def)

text \<open>
  C9. A lock marker whose content \<open>parseInt\<close> reads as \<open>NaN\<close> is never stale: the
  comparison \<open>Date.now() - NaN > LOCK_TIMEOUT\<close> is false at every time. While such a marker
  is there, \<open>acquireLock\<close> only reads it and sleeps 500 ms, turn after turn, until its
  deadline has passed, and returns \<open>null\<close>; the marker is still there and was never
  unlinked.
\<close>

theorem corrupt_marker_never_reclaimed:
  "lock_file w = Some s \<Longrightarrow> parseInt s = NaN \<Longrightarrow>
   (\<forall>t. \<not> stale t s) \<and>
   (\<exists>k. acquireLock timeout w = (None, polls k w)
       \<and> timeout \<le> 500 * int k
       \<and> lock_file (polls k w) = Some s
       \<and> events (polls k w) = events w @ concat (replicate k [LockRead, Sleep 500]))"
proof -
  assume lf: "lock_file w = Some s" and nan: "parseInt s = NaN"
  have ns: "\<forall>t. \<not> stale t s"
    using nan by (simp add: stale_NaN)
  then obtain k where "acquireLock_loop (now w) timeout w = (None, polls k w)"
      "timeout \<le> now (polls k w) - now w"
    using loop_held [OF lf, of "now w" timeout] by auto
  then show ?thesis
    using ns lf by (auto simp: acquireLock_def events_polls)
qed

theorem corrupt_marker_never_reclaimed_witness:
  "lock_file (example_world\<lparr>lock_file := Some ''locked''\<rparr>) = Some ''locked''
   \<and> parseInt ''locked'' = NaN
   \<and> (\<exists>k. acquireLock 5000 (example_world\<lparr>lock_file := Some ''locked''\<rparr>)
             = (None, polls k (example_world\<lparr>lock_file := Some ''locked''\<rparr>))
          \<and> 5000 \<le> 500 * int k)"
  using corrupt_marker_never_reclaimed
    [of "example_world\<lparr>lock_file := Some ''locked''\<rparr>" "''locked''" 5000]
    parseInt_examples(3)
  by auto

text \<open>
  C10. \<open>setCachedToken\<close> never rejects: its promise always resolves, and when the
  \<open>try\<close> block throws (as it does when the cache file cannot be written) the world is
  left as it was. So \<open>resolveAuth\<close>, with no explicit or environment token, no cache, the
  caller interactive, the lock free and a headless session that captures a token the service
  accepts, returns success with that token although the cache was not written: the cache
  file is as before and no \<open>CacheWrite\<close> happened.
\<close>

theorem setCachedToken_never_rejects:
  "(\<exists>w'. setCachedToken rt tok g w = Inr w')
   \<and> (setCachedToken_try rt tok g w = Inl e \<longrightarrow> setCachedToken rt tok g w = Inr w)
   \<and> (\<not> cache_writable w \<longrightarrow> setCachedToken_try rt tok g w = Inl EACCES)
   \<and> (or_undefined (cliToken opts) = None \<and> or_undefined (CLIPPY_TOKEN ev) = None
        \<and> cache_file w = None \<and> interactive opts
        \<and> lock_file w = None \<and> disk_ok w \<and> \<not> cache_writable w
        \<and> chromium ev True 15000 (now w) = (Finished (Some tok) g, elapsed) \<and> tok \<noteq> []
        \<and> fetch_ok ev (now w + int elapsed) (Some (JStr tok)) = Some True
      \<longrightarrow> resolveAuth ev rt opts w =
            Inr (\<lparr>success = True, token = Some (JStr tok), graphToken = js_string (or_undefined g),
                  error = None\<rparr>,
                 False,
                 w\<lparr>now := now w + int elapsed,
                   events := events w @
                     [Consult ExplicitToken, Consult EnvironmentOverride, Consult TokenCache,
                      Consult InteractiveExtraction, LockRead, LockCreate, Browser True 15000,
                      LockRelease, Validate (Some (JStr tok)) True]\<rparr>))"
proof -
  have a: "\<exists>w'. setCachedToken rt tok g w = Inr w'"
    by (simp add: setCachedToken_eq)
  have b: "setCachedToken_try rt tok g w = Inl e \<longrightarrow> setCachedToken rt tok g w = Inr w"
    by (simp add: setCachedToken_def)
  have c: "\<not> cache_writable w \<longrightarrow> setCachedToken_try rt tok g w = Inl EACCES"
    by (simp add: setCachedToken_try_def mkdir_def writeFile_cache_def Let_def)
  have d: "resolveAuth ev rt opts w =
            Inr (\<lparr>success = True, token = Some (JStr tok), graphToken = js_string (or_undefined g),
                  error = None\<rparr>,
                 False,
                 w\<lparr>now := now w + int elapsed,
                   events := events w @
                     [Consult ExplicitToken, Consult EnvironmentOverride, Consult TokenCache,
                      Consult InteractiveExtraction, LockRead, LockCreate, Browser True 15000,
                      LockRelease, Validate (Some (JStr tok)) True]\<rparr>)"
    if h: "or_undefined (cliToken opts) = None" "or_undefined (CLIPPY_TOKEN ev) = None"
        "cache_file w = None" "interactive opts" "lock_file w = None" "disk_ok w"
        "\<not> cache_writable w"
        "chromium ev True 15000 (now w) = (Finished (Some tok) g, elapsed)" "tok \<noteq> []"
        "fetch_ok ev (now w + int elapsed) (Some (JStr tok)) = Some True"
  proof -
    let ?w2 = "log (Consult TokenCache)
                 (log (Consult EnvironmentOverride) (log (Consult ExplicitToken) w))"
    have g: "getCachedToken rt ?w2 = None"
      using h(3) by (intro getCachedToken_absent) (simp add: log_def)
    have i: "resolve_interactive ev rt opts ?w2 =
            Inr (\<lparr>success = True, token = Some (JStr tok), graphToken = js_string (or_undefined g),
                  error = None\<rparr>,
                 False,
                 ?w2\<lparr>now := now ?w2 + int elapsed,
                   events := events ?w2 @
                     [Consult InteractiveExtraction, LockRead, LockCreate, Browser True 15000,
                      LockRelease, Validate (Some (JStr tok)) True]\<rparr>)"
      using h by (intro resolve_interactive_unwritable) (simp_all add: log_def)
    have "resolveAuth ev rt opts w = resolve_interactive ev rt opts ?w2"
      using h(1,2) g by (simp add: resolveAuth_def resolve_cached_def Let_def)
    with i show ?thesis
      by (simp add: log_def)
  qed
  from a b c d show ?thesis by blast
qed

theorem setCachedToken_never_rejects_witness:
  "setCachedToken example_runtime ''Y'' None (example_world\<lparr>cache_writable := False\<rparr>)
     = Inr (example_world\<lparr>cache_writable := False\<rparr>)
   \<and> setCachedToken_try example_runtime ''Y'' None (example_world\<lparr>cache_writable := False\<rparr>)
     = Inl EACCES
   \<and> resolveAuth example_env example_runtime \<lparr>cliToken = None, interactive = True\<rparr>
       (example_world\<lparr>cache_writable := False\<rparr>)
     = Inr (\<lparr>success = True, token = Some (JStr ''Y''), graphToken = None, error = None\<rparr>,
            False,
            example_world\<lparr>cache_writable := False, now := 1700000001000,
              events := [Consult ExplicitToken, Consult EnvironmentOverride, Consult TokenCache,
                Consult InteractiveExtraction, LockRead, LockCreate, Browser True 15000,
                LockRelease, Validate (Some (JStr ''Y'')) True]\<rparr>)"
  using setCachedToken_never_rejects
      [of example_runtime "''Y''" None "example_world\<lparr>cache_writable := False\<rparr>" EACCES
          "\<lparr>cliToken = None, interactive = True\<rparr>" example_env 1000]
  by (simp add: example_env_def example_world_def js_string_def)

end
